theory Spec2Isabelle
  imports Complex_Main "HOL-Library.Sublist" "HOL-Library.Char_ord"
    "HOL-Library.List_Lexorder" "HOL-Library.Product_Lexorder"
begin

section \<open>Values, columns and frames\<close>

text \<open>
  The dashboard works on pandas frames read from CSV files. A float64 cell is a finite
  number, the missing value NaN, or minus infinity (the only infinite value the program
  itself can create, as \<open>log1p(-1)\<close>). Numbers are modelled as exact reals: rounding
  errors of binary floating point are outside this model. A cell of an object column is
  a string or a float. A column carries its dtype, as a pandas Series does; a frame is the
  ordered list of its named columns. A frame read from a CSV file has columns of equal
  length and distinct labels; only the renaming below can make two labels equal. Strings
  are byte strings; letters are the ASCII ones.
\<close>

datatype num = Fin real | NaN | NegInf

datatype cell = CNum num | CStr string

datatype column = NumCol "num list" | ObjCol "cell list"

type_synonym dataframe = "(string \<times> column) list"

text \<open>
  The exceptions of the run: the Python ones by their names, and \<open>ReadError\<close> for
  whatever \<open>pd.read_csv\<close> raises on a missing or unreadable file.
\<close>

datatype error =
    KeyError string
  | ValueError
  | TypeError
  | AttributeError
  | ReadError string

definition bind_err :: "error + 'a \<Rightarrow> ('a \<Rightarrow> error + 'b) \<Rightarrow> error + 'b" where
  "bind_err m f = (case m of Inl e \<Rightarrow> Inl e | Inr x \<Rightarrow> f x)"

fun col_cells :: "column \<Rightarrow> cell list" where
  "col_cells (NumCol xs) = map CNum xs"
| "col_cells (ObjCol cs) = cs"

fun notnull :: "cell \<Rightarrow> bool" where
  "notnull (CNum NaN) = False"
| "notnull c = True"

subsection \<open>Python string methods\<close>

definition startswith :: "string \<Rightarrow> string \<Rightarrow> bool" where
  "startswith s p = prefix p s"

text \<open>\<open>s.replace(old, new)\<close>: every non-overlapping occurrence, from the left.\<close>

function str_replace :: "string \<Rightarrow> string \<Rightarrow> string \<Rightarrow> string" where
  "str_replace old new s =
     (if old = [] then new @ concat (map (\<lambda>c. c # new) s)
      else if s = [] then []
      else if prefix old s then new @ str_replace old new (drop (length old) s)
      else hd s # str_replace old new (tl s))"
  by pat_completeness auto
termination
  by (relation "measure (\<lambda>(old, new, s). length s)") auto

declare str_replace.simps [simp del]

definition ascii_lower :: string where
  "ascii_lower = ''abcdefghijklmnopqrstuvwxyz''"

definition ascii_upper :: string where
  "ascii_upper = ''ABCDEFGHIJKLMNOPQRSTUVWXYZ''"

definition is_lower :: "char \<Rightarrow> bool" where
  "is_lower c = (c \<in> set ascii_lower)"

definition is_upper :: "char \<Rightarrow> bool" where
  "is_upper c = (c \<in> set ascii_upper)"

definition to_upper :: "char \<Rightarrow> char" where
  "to_upper c = (case map_of (zip ascii_lower ascii_upper) c of Some u \<Rightarrow> u | None \<Rightarrow> c)"

definition to_lower :: "char \<Rightarrow> char" where
  "to_lower c = (case map_of (zip ascii_upper ascii_lower) c of Some l \<Rightarrow> l | None \<Rightarrow> c)"

text \<open>
  \<open>s.title()\<close>: a letter that follows a letter is lowercased, a letter that follows
  anything else (or starts the string) is uppercased; the flag is "previous is cased".
\<close>

fun title_from :: "bool \<Rightarrow> string \<Rightarrow> string" where
  "title_from prev [] = []"
| "title_from prev (c # cs) =
     (if is_lower c then (if prev then c else to_upper c) # title_from True cs
      else if is_upper c then (if prev then to_lower c else c) # title_from True cs
      else c # title_from False cs)"

definition title :: "string \<Rightarrow> string" where
  "title s = title_from False s"

text \<open>\<open>os.path.join(a, b)\<close> for a relative \<open>b\<close> on POSIX.\<close>

definition path_join :: "string \<Rightarrow> string \<Rightarrow> string" where
  "path_join a b = (if a = [] then b else if last a = CHR ''/'' then a @ b else a @ ''/'' @ b)"

subsection \<open>Float arithmetic on cells\<close>

text \<open>Summation with \<open>skipna=True\<close>: NaN is skipped, so an all-NaN sum is 0.\<close>

fun nanadd :: "num \<Rightarrow> num \<Rightarrow> num" where
  "nanadd acc NaN = acc"
| "nanadd NaN x = x"
| "nanadd (Fin a) (Fin b) = Fin (a + b)"
| "nanadd NegInf x = NegInf"
| "nanadd acc NegInf = NegInf"

definition nansum :: "num list \<Rightarrow> num" where
  "nansum xs = foldl nanadd (Fin 0) xs"

text \<open>Ordinary float addition and division by a positive constant.\<close>

fun num_add :: "num \<Rightarrow> num \<Rightarrow> num" where
  "num_add (Fin a) (Fin b) = Fin (a + b)"
| "num_add NaN y = NaN"
| "num_add x NaN = NaN"
| "num_add NegInf y = NegInf"
| "num_add x NegInf = NegInf"

fun num_div :: "num \<Rightarrow> real \<Rightarrow> num" where
  "num_div (Fin a) d = Fin (a / d)"
| "num_div NaN d = NaN"
| "num_div NegInf d = NegInf"

text \<open>Rounding to the nearest integer, ties to the even one (\<open>rint\<close>).\<close>

definition rint :: "real \<Rightarrow> int" where
  "rint x = (let f = \<lfloor>x\<rfloor>; d = x - of_int f in
     if d < 1 / 2 then f else if 1 / 2 < d then f + 1 else if even f then f else f + 1)"

definition round2 :: "real \<Rightarrow> real" where
  "round2 x = of_int (rint (x * 100)) / 100"

fun round_num :: "num \<Rightarrow> num" where
  "round_num (Fin x) = Fin (round2 x)"
| "round_num NaN = NaN"
| "round_num NegInf = NegInf"

text \<open>\<open>np.log1p\<close>: \<open>ln (1 + x)\<close> above -1, minus infinity at -1, NaN below.\<close>

fun log1p :: "num \<Rightarrow> num" where
  "log1p (Fin x) = (if -1 < x then Fin (ln (1 + x)) else if x = -1 then NegInf else NaN)"
| "log1p NaN = NaN"
| "log1p NegInf = NaN"

subsection \<open>Frame operations\<close>

text \<open>
  \<open>df[c]\<close> as a Series: a missing label raises KeyError; a label carried by several
  columns selects a frame, which none of the uses below accepts.
\<close>

definition lookup_col :: "dataframe \<Rightarrow> string \<Rightarrow> error + column" where
  "lookup_col df c =
     (case filter (\<lambda>(n, v). n = c) df of
        [] \<Rightarrow> Inl (KeyError c)
      | [(n, v)] \<Rightarrow> Inr v
      | _ \<Rightarrow> Inl ValueError)"

text \<open>A column used in float arithmetic must have a numeric dtype.\<close>

definition get_num :: "dataframe \<Rightarrow> string \<Rightarrow> error + num list" where
  "get_num df c = bind_err (lookup_col df c)
     (\<lambda>v. case v of NumCol xs \<Rightarrow> Inr xs | ObjCol cs \<Rightarrow> Inl TypeError)"

fun get_nums :: "dataframe \<Rightarrow> string list \<Rightarrow> error + num list list" where
  "get_nums df [] = Inr []"
| "get_nums df (c # cs) =
     bind_err (get_num df c) (\<lambda>xs. bind_err (get_nums df cs) (\<lambda>xss. Inr (xs # xss)))"

text \<open>\<open>df[c] = v\<close>: replaces the column of that label, or appends a new one.\<close>

definition set_col :: "dataframe \<Rightarrow> string \<Rightarrow> column \<Rightarrow> dataframe" where
  "set_col df c v =
     (if c \<in> fst ` set df then map (\<lambda>(n, w). if n = c then (n, v) else (n, w)) df
      else df @ [(c, v)])"

text \<open>\<open>df[cols].sum(axis=1)\<close>: one sum per row.\<close>

definition sum_axis1 :: "num list list \<Rightarrow> num list" where
  "sum_axis1 cols = map nansum (transpose cols)"

text \<open>
  \<open>groupby(key)\<close>: rows with a null key are dropped, the groups come sorted by key
  (numbers before strings).
\<close>

fun cell_rank :: "cell \<Rightarrow> nat \<times> real \<times> string" where
  "cell_rank (CNum NegInf) = (0, 0, [])"
| "cell_rank (CNum (Fin x)) = (1, x, [])"
| "cell_rank (CStr s) = (2, 0, s)"
| "cell_rank (CNum NaN) = (3, 0, [])"

definition group_keys :: "cell list \<Rightarrow> cell list" where
  "group_keys ks = sort_key cell_rank (remdups (filter notnull ks))"

definition group_rows :: "cell \<Rightarrow> cell list \<Rightarrow> 'a list \<Rightarrow> 'a list" where
  "group_rows k ks vs = map snd (filter (\<lambda>(k', v). k' = k) (zip ks vs))"

definition groupby_sum :: "cell list \<Rightarrow> num list \<Rightarrow> num list" where
  "groupby_sum ks vs = map (\<lambda>k. nansum (group_rows k ks vs)) (group_keys ks)"

text \<open>The aggregation \<open>'first'\<close>: the first non-null value of the group, NaN if none.\<close>

definition first_notnull :: "cell list \<Rightarrow> cell" where
  "first_notnull cs = (case filter notnull cs of [] \<Rightarrow> CNum NaN | c # _ \<Rightarrow> c)"

definition groupby_first :: "cell list \<Rightarrow> cell list \<Rightarrow> cell list" where
  "groupby_first ks cs = map (\<lambda>k. first_notnull (group_rows k ks cs)) (group_keys ks)"

text \<open>\<open>pd.concat\<close> of two columns: the common dtype if there is one, object otherwise.\<close>

fun concat_col :: "column \<Rightarrow> column \<Rightarrow> column" where
  "concat_col (NumCol xs) (NumCol ys) = NumCol (xs @ ys)"
| "concat_col a b = ObjCol (col_cells a @ col_cells b)"

text \<open>A column of the dtype of \<open>like\<close> holding the given cells.\<close>

fun cells_as :: "column \<Rightarrow> cell list \<Rightarrow> column" where
  "cells_as (NumCol xs) cs = NumCol (map (\<lambda>c. case c of CNum x \<Rightarrow> x | CStr s \<Rightarrow> NaN) cs)"
| "cells_as (ObjCol ys) cs = ObjCol cs"

section \<open>Loading a scenario\<close>

text \<open>
  The files are a parameter: \<open>read_csv fs p\<close> is what \<open>pd.read_csv(p)\<close> gives, a frame or
  the exception raised for a missing or unreadable file.
\<close>

type_synonym store = "string \<Rightarrow> error + dataframe"

definition read_csv :: "store \<Rightarrow> string \<Rightarrow> error + dataframe" where
  "read_csv fs p = fs p"

definition years :: "string list" where
  "years = [''2017'', ''2030'', ''2050'']"

definition data_paths :: "string \<Rightarrow> string \<Rightarrow> error + string" where
  "data_paths base_dir year =
     (if year \<in> set years then Inr (path_join (path_join base_dir ''data'') year)
      else Inl (KeyError year))"

definition nitrogen_loss_labels :: "(string \<times> string) list" where
  "nitrogen_loss_labels =
     [(''nitrogen_loss1'', ''N input not taken by crop''),
      (''nitrogen_loss2'', ''Crop processing N loss''),
      (''nitrogen_loss3'', ''Feed waste & manure loss''),
      (''nitrogen_loss4'', ''Slaughtering/milking/laying N loss''),
      (''nitrogen_loss5'', ''Food processing N loss''),
      (''nitrogen_loss6'', ''Food N waste''),
      (''nitrogen_loss7'', ''Human N waste'')]"

definition rename_col :: "string \<Rightarrow> string" where
  "rename_col col =
     (if startswith col ''selfloop'' then str_replace ''selfloop'' ''within_county'' col else col)"

definition rename_columns :: "dataframe \<Rightarrow> dataframe" where
  "rename_columns df = map (\<lambda>(n, v). (rename_col n, v)) df"

definition crop_loss_cols :: "string list" where
  "crop_loss_cols = [''nitrogen_loss1'', ''nitrogen_loss2'']"

definition animal_loss_cols :: "string list" where
  "animal_loss_cols = [''nitrogen_loss3'', ''nitrogen_loss4'', ''nitrogen_loss5'',
     ''nitrogen_loss6'', ''nitrogen_loss7'']"

definition add_total :: "dataframe \<Rightarrow> string list \<Rightarrow> error + dataframe" where
  "add_total df cols = bind_err (get_nums df cols)
     (\<lambda>xss. Inr (set_col df ''total_nitrogen_loss'' (NumCol (sum_axis1 xss))))"

text \<open>
  The county totals: both stages' \<open>FIPS\<close>, \<open>county\<close> and \<open>total_nitrogen_loss\<close> columns
  one after the other (crop rows first), grouped by \<open>FIPS\<close>.
\<close>

definition total_nitrogen :: "dataframe \<Rightarrow> dataframe \<Rightarrow> error + dataframe" where
  "total_nitrogen crop animal =
     bind_err (lookup_col crop ''FIPS'') (\<lambda>cf.
     bind_err (lookup_col crop ''county'') (\<lambda>cc.
     bind_err (get_num crop ''total_nitrogen_loss'') (\<lambda>ctot.
     bind_err (lookup_col animal ''FIPS'') (\<lambda>af.
     bind_err (lookup_col animal ''county'') (\<lambda>ac.
     bind_err (get_num animal ''total_nitrogen_loss'') (\<lambda>atot.
       let fips = concat_col cf af;
           county = concat_col cc ac;
           ks = col_cells fips
       in Inr [(''FIPS'', cells_as fips (group_keys ks)),
               (''total_nitrogen_loss'', NumCol (groupby_sum ks (ctot @ atot))),
               (''county'', cells_as county (groupby_first ks (col_cells county)))]))))))"

definition load_data :: "store \<Rightarrow> string \<Rightarrow> string \<Rightarrow>
    error + (dataframe \<times> dataframe \<times> dataframe \<times> dataframe \<times> dataframe \<times> dataframe)" where
  "load_data fs base_dir year =
     bind_err (data_paths base_dir year) (\<lambda>path.
     bind_err (read_csv fs (path_join path ''nitrogen_losses_summary.csv'')) (\<lambda>nitrogen_df.
     bind_err (read_csv fs (path_join path ''harvested_area_by_commodity.csv'')) (\<lambda>area_df.
     bind_err (read_csv fs (path_join path ''inventory_by_commodity.csv'')) (\<lambda>inventory_df.
     bind_err (read_csv fs (path_join path ''crop_processing_nitrogen.csv'')) (\<lambda>crop0.
     bind_err (read_csv fs (path_join path ''animal_stage_nitrogen.csv'')) (\<lambda>animal0.
     bind_err (add_total (rename_columns crop0) crop_loss_cols) (\<lambda>crop_df.
     bind_err (add_total (rename_columns animal0) animal_loss_cols) (\<lambda>animal_df.
     bind_err (total_nitrogen crop_df animal_df) (\<lambda>total_nitrogen_df.
       Inr (nitrogen_df, area_df, inventory_df, crop_df, animal_df, total_nitrogen_df))))))))))"

section \<open>Building the dashboard\<close>

text \<open>
  What the callback returns, reduced to the data it shows: a map is the data handed to
  \<open>px.choropleth\<close> (locations, colour values, hover name and hover value of each row),
  a table is the records and column names handed to \<open>DataTable\<close>, a pie chart its names
  and values. Style attributes are constants of the source and are left out.
\<close>

record choropleth =
  fig_title :: string
  fig_locations :: "cell list"
  fig_color :: "cell list"
  fig_hover_name :: "cell list"
  fig_hover_data :: "cell list"
  fig_color_label :: string

record tab =
  tab_label :: string
  tab_figure :: choropleth

record data_table =
  dt_data :: "(string \<times> cell) list list"
  dt_columns :: "string list"

record pie_chart =
  pie_title :: string
  pie_names :: "cell list"
  pie_values :: "cell list"

record stage_section =
  stage_heading :: string
  stage_tabs :: "tab list"
  stage_table :: data_table

record production_tab =
  ptab_label :: string
  ptab_chart :: pie_chart
  ptab_table :: data_table

record maps_section =
  maps_heading :: string
  maps_tabs :: "tab list"

record trade_section =
  trade_heading :: string
  trade_stages :: "stage_section list"

record production_section =
  production_heading :: string
  production_tabs :: "production_tab list"

text \<open>A column handed to plotly express by name; plotly raises ValueError for a missing one.\<close>

definition px_col :: "dataframe \<Rightarrow> string \<Rightarrow> error + cell list" where
  "px_col df c = (case lookup_col df c of Inl e \<Rightarrow> Inl ValueError | Inr v \<Rightarrow> Inr (col_cells v))"

definition px_choropleth ::
    "dataframe \<Rightarrow> string \<Rightarrow> string \<Rightarrow> string \<Rightarrow> string \<Rightarrow> string \<Rightarrow> string \<Rightarrow> error + choropleth" where
  "px_choropleth df locations color hover_name hover_col ttl label =
     bind_err (px_col df locations) (\<lambda>ls.
     bind_err (px_col df color) (\<lambda>cs.
     bind_err (px_col df hover_name) (\<lambda>hs.
     bind_err (px_col df hover_col) (\<lambda>ds.
       Inr \<lparr>fig_title = ttl, fig_locations = ls, fig_color = cs, fig_hover_name = hs,
            fig_hover_data = ds, fig_color_label = label\<rparr>))))"

text \<open>
  \<open>df["log_" + col] = np.log1p(df[col])\<close> followed by the map coloured by the new column,
  with the raw column as hover value. The frame is changed in place: it is returned.
\<close>

definition log_map :: "dataframe \<Rightarrow> string \<Rightarrow> string \<Rightarrow> string \<Rightarrow> error + (choropleth \<times> dataframe)" where
  "log_map df col ttl label =
     bind_err (get_num df col) (\<lambda>xs.
       let df' = set_col df (''log_'' @ col) (NumCol (map log1p xs)) in
       bind_err (px_choropleth df' ''FIPS'' (''log_'' @ col) ''county'' col ttl label) (\<lambda>fig.
         Inr (fig, df')))"

text \<open>
  The loop over the seven loss categories: the first two are columns of the crop frame,
  the others of the animal frame.
\<close>

fun loss_maps :: "nat \<Rightarrow> (string \<times> string) list \<Rightarrow> dataframe \<Rightarrow> dataframe \<Rightarrow>
    error + (tab list \<times> dataframe \<times> dataframe)" where
  "loss_maps i [] crop_df animal_df = Inr ([], crop_df, animal_df)"
| "loss_maps i ((col, label) # rest) crop_df animal_df =
     bind_err (log_map (if i < 2 then crop_df else animal_df) col
                 (''<b>'' @ label @ ''</b>'') ''Log Nitrogen Loss'') (\<lambda>(fig, df).
     bind_err (loss_maps (i + 1) rest (if i < 2 then df else crop_df)
                 (if i < 2 then animal_df else df)) (\<lambda>(tabs, crop_df', animal_df').
       Inr (\<lparr>tab_label = label, tab_figure = fig\<rparr> # tabs, crop_df', animal_df')))"

definition total_loss_map :: "dataframe \<Rightarrow> error + tab" where
  "total_loss_map total_nitrogen_df =
     bind_err (log_map total_nitrogen_df ''total_nitrogen_loss''
                 ''<b>Total Nitrogen Loss by County</b>'' ''Log Nitrogen Loss'') (\<lambda>(fig, df).
       Inr \<lparr>tab_label = ''Total Nitrogen Loss'', tab_figure = fig\<rparr>)"

text \<open>\<open>df.to_dict("records")\<close> and the table component built from a frame.\<close>

definition to_dict_records :: "dataframe \<Rightarrow> (string \<times> cell) list list" where
  "to_dict_records df = map (zip (map fst df)) (transpose (map (col_cells \<circ> snd) df))"

definition make_table :: "dataframe \<Rightarrow> data_table" where
  "make_table df = \<lparr>dt_data = to_dict_records df, dt_columns = map fst df\<rparr>"

subsection \<open>The loss table\<close>

text \<open>\<open>df[cols].sum()\<close>: one sum per column.\<close>

definition column_sums :: "dataframe \<Rightarrow> string list \<Rightarrow> error + num list" where
  "column_sums df cols = bind_err (get_nums df cols) (\<lambda>xss. Inr (map nansum xss))"

definition in_millions :: "num \<Rightarrow> num" where
  "in_millions x = num_div x (10 ^ 6)"

definition digit :: "nat \<Rightarrow> string" where
  "digit i = [''0123456789'' ! i]"

definition nitrogen_loss_table :: "dataframe \<Rightarrow> dataframe \<Rightarrow> error + dataframe" where
  "nitrogen_loss_table crop_df animal_df =
     bind_err (column_sums crop_df crop_loss_cols) (\<lambda>crop_sums.
     bind_err (column_sums animal_df animal_loss_cols) (\<lambda>animal_sums.
       let total_nitrogen_loss =
             round_num (num_add (in_millions (nansum crop_sums)) (in_millions (nansum animal_sums)))
       in Inr [(''Nitrogen Loss ID'',
                  ObjCol (map (\<lambda>i. CStr (''Nitrogen Loss Stage '' @ digit i)) [1..<8]
                          @ [CStr ''Total Nitrogen Loss''])),
               (''Nitrogen Loss Type'',
                  ObjCol (map (CStr \<circ> snd) nitrogen_loss_labels @ [CStr ''Total Nitrogen Loss''])),
               (''Total (K Tons)'',
                  NumCol (map (round_num \<circ> in_millions) crop_sums
                          @ map (round_num \<circ> in_millions) animal_sums
                          @ [total_nitrogen_loss]))]))"

subsection \<open>Trade flows\<close>

text \<open>
  The \<open>.str\<close> accessor exists on object columns holding strings; an element that is not
  a string gives NaN. Here it is \<open>.str.title().str.replace('_', ' ')\<close>.
\<close>

definition format_label :: "string \<Rightarrow> string" where
  "format_label s = str_replace ''_'' '' '' (title s)"

fun format_labels :: "column \<Rightarrow> error + column" where
  "format_labels (NumCol xs) = Inl AttributeError"
| "format_labels (ObjCol cs) =
     (if cs \<noteq> [] \<and> list_all (\<lambda>c. case c of CNum x \<Rightarrow> True | CStr s \<Rightarrow> False) cs
      then Inl AttributeError
      else Inr (ObjCol (map (\<lambda>c. case c of CStr s \<Rightarrow> CStr (format_label s)
                                            | CNum x \<Rightarrow> CNum NaN) cs)))"

definition stages :: "(string \<times> string list) list" where
  "stages =
     [(''Crop Stage'', [''import_crop_processing_nitrogen'', ''export_crop_processing_nitrogen'',
                        ''within_county_crop_processing_nitrogen'']),
      (''Live Animal Stage'', [''import_animal_nitrogen'', ''export_animal_nitrogen'',
                               ''within_county_animal_nitrogen'']),
      (''Animal Product Stage'', [''import_meat_nitrogen'', ''export_meat_nitrogen'',
                                  ''within_county_meat_nitrogen''])]"

definition tab_name :: "string \<Rightarrow> string" where
  "tab_name col = title (str_replace ''_'' '' '' col)"

fun trade_maps :: "string \<Rightarrow> string list \<Rightarrow> dataframe \<Rightarrow> error + (tab list \<times> dataframe)" where
  "trade_maps stage [] stage_df = Inr ([], stage_df)"
| "trade_maps stage (col # cols) stage_df =
     bind_err (log_map stage_df col (''<b>'' @ tab_name col @ '' - '' @ stage @ ''<b>'')
                 ''Log Nitrogen'') (\<lambda>(fig, df).
     bind_err (trade_maps stage cols df) (\<lambda>(tabs, df').
       Inr (\<lparr>tab_label = tab_name col, tab_figure = fig\<rparr> # tabs, df')))"

text \<open>
  The table of a stage: the three flow columns summed per raw commodity label, in
  millions, rounded; then the labels formatted and the columns renamed.
\<close>

definition trade_table :: "dataframe \<Rightarrow> string list \<Rightarrow> error + dataframe" where
  "trade_table stage_df columns =
     bind_err (lookup_col stage_df ''commodity'') (\<lambda>commodity.
     bind_err (get_nums stage_df columns) (\<lambda>flows.
       let ks = col_cells commodity;
           summed = map (\<lambda>vs. NumCol (map (round_num \<circ> in_millions) (groupby_sum ks vs))) flows
       in bind_err (format_labels (cells_as commodity (group_keys ks))) (\<lambda>labels.
            Inr (zip [''Commodity'', ''Import (K Tons)'', ''Export (K Tons)'',
                      ''Within County (K Tons)''] (labels # summed)))))"

text \<open>
  The loop over the three stages; the crop frame serves the first, the animal frame the
  other two, each keeping the log columns the earlier iterations added.
\<close>

fun import_export_sections :: "nat \<Rightarrow> (string \<times> string list) list \<Rightarrow> dataframe \<Rightarrow> dataframe \<Rightarrow>
    error + (stage_section list \<times> dataframe \<times> dataframe)" where
  "import_export_sections idx [] crop_df animal_df = Inr ([], crop_df, animal_df)"
| "import_export_sections idx ((stage, columns) # rest) crop_df animal_df =
     bind_err (trade_maps stage columns (if idx = 0 then crop_df else animal_df)) (\<lambda>(tabs, df).
     bind_err (trade_table df columns) (\<lambda>table_data.
     bind_err (import_export_sections (idx + 1) rest (if idx = 0 then df else crop_df)
                 (if idx = 0 then animal_df else df)) (\<lambda>(secs, crop_df', animal_df').
       Inr (\<lparr>stage_heading = stage, stage_tabs = tabs, stage_table = make_table table_data\<rparr> # secs,
            crop_df', animal_df'))))"

subsection \<open>Production totals\<close>

definition format_commodity :: "dataframe \<Rightarrow> error + dataframe" where
  "format_commodity df =
     (if ''Commodity'' \<in> fst ` set df
      then bind_err (lookup_col df ''Commodity'') (\<lambda>c.
           bind_err (format_labels c) (\<lambda>c'. Inr (set_col df ''Commodity'' c')))
      else Inr df)"

definition px_pie :: "dataframe \<Rightarrow> string \<Rightarrow> string \<Rightarrow> string \<Rightarrow> error + pie_chart" where
  "px_pie df names vals ttl =
     bind_err (px_col df names) (\<lambda>ns.
     bind_err (px_col df vals) (\<lambda>vs.
       Inr \<lparr>pie_title = ttl, pie_names = ns, pie_values = vs\<rparr>))"

text \<open>\<open>df.round(2)\<close>: the numeric columns rounded, the others as they are.\<close>

definition round_frame :: "dataframe \<Rightarrow> dataframe" where
  "round_frame df =
     map (\<lambda>(n, v). (n, case v of NumCol xs \<Rightarrow> NumCol (map round_num xs) | ObjCol cs \<Rightarrow> ObjCol cs)) df"

definition production_totals :: "dataframe \<Rightarrow> dataframe \<Rightarrow> error + production_section" where
  "production_totals inventory_df area_df =
     bind_err (format_commodity inventory_df) (\<lambda>inventory_df.
     bind_err (format_commodity area_df) (\<lambda>area_df.
     bind_err (px_pie inventory_df ''Commodity'' ''Total Inventory (head)''
                 ''<b>Inventory by Commodity<b>'') (\<lambda>inventory_chart.
     bind_err (px_pie area_df ''Commodity'' ''Total Harvested Area (Acre)''
                 ''<b> Harvested Area by Commodity <b>'') (\<lambda>area_chart.
       Inr \<lparr>production_heading =
              ''What Are the Production Totals for Crops and Animals in the Chesapeake Bay?'',
            production_tabs =
              [\<lparr>ptab_label = ''Inventory'', ptab_chart = inventory_chart,
                ptab_table = make_table (round_frame inventory_df)\<rparr>,
               \<lparr>ptab_label = ''Harvested Area'', ptab_chart = area_chart,
                ptab_table = make_table (round_frame area_df)\<rparr>]\<rparr>))))"

subsection \<open>The callback\<close>

text \<open>
  The five values returned, in the order of the callback's outputs: \<open>chloropleth-maps\<close>,
  \<open>nitrogen-loss-table\<close>, \<open>import-export-tables\<close>, \<open>import-export-maps\<close>,
  \<open>inventory-harvest-section\<close>.
\<close>

type_synonym outputs =
  "maps_section \<times> data_table \<times> trade_section \<times> tab list \<times> production_section"

definition update_dashboard :: "store \<Rightarrow> string \<Rightarrow> string \<Rightarrow> error + outputs" where
  "update_dashboard fs base_dir selected_year =
     bind_err (load_data fs base_dir selected_year)
       (\<lambda>(nitrogen_df, area_df, inventory_df, crop_df, animal_df, total_nitrogen_df).
     bind_err (loss_maps 0 nitrogen_loss_labels crop_df animal_df) (\<lambda>(loss_tabs, crop_df, animal_df).
     bind_err (total_loss_map total_nitrogen_df) (\<lambda>total_tab.
     bind_err (nitrogen_loss_table crop_df animal_df) (\<lambda>loss_table.
     bind_err (import_export_sections 0 stages crop_df animal_df) (\<lambda>(sections, crop_df, animal_df).
     bind_err (production_totals inventory_df area_df) (\<lambda>inventory_harvest_section.
       Inr (\<lparr>maps_heading = ''In What Stage Is Nitrogen Lost in the Food and Animal Supply Chain?'',
             maps_tabs = loss_tabs @ [total_tab]\<rparr>,
            make_table loss_table,
            \<lparr>trade_heading = ''Where Does Nitrogen Loss Occur in the Chesapeake Bay?'',
             trade_stages = sections\<rparr>,
            [],
            inventory_harvest_section)))))))"

definition update_dashboard_wrapper :: "store \<Rightarrow> string \<Rightarrow> string \<Rightarrow> error + outputs" where
  "update_dashboard_wrapper fs base_dir selected_year = update_dashboard fs base_dir selected_year"

subsection \<open>Successive selections\<close>




section \<open>Notions used in the proofs\<close>

text \<open>
  The callback adds columns named \<open>log_...\<close> to the frames it has loaded. Two frames
  agree when every other column label selects the same thing in both.
\<close>

definition agree :: "dataframe \<Rightarrow> dataframe \<Rightarrow> bool" where
  "agree df df' \<longleftrightarrow> (\<forall>c. \<not> prefix ''log_'' c \<longrightarrow> lookup_col df' c = lookup_col df c)"

text \<open>A map tab is log-coloured when its colour values are \<open>log1p\<close> of its hover values.\<close>

definition log_colored :: "tab \<Rightarrow> bool" where
  "log_colored tb \<longleftrightarrow> (\<exists>xs. fig_hover_data (tab_figure tb) = map CNum xs
      \<and> fig_color (tab_figure tb) = map (CNum \<circ> log1p) xs)"


section \<open>An example scenario\<close>

text \<open>
  Small tables for the year 2017 under \<open>/srv/app\<close>: two counties, present in both
  stage tables; one crop commodity and one animal commodity. The frames named
  \<open>..._loaded\<close> are what loading makes of them.
\<close>

definition crop_csv :: dataframe where
  "crop_csv =
     [(''FIPS'', NumCol [Fin 51001, Fin 51003]),
      (''county'', ObjCol [CStr ''Accomack'', CNum NaN]),
      (''commodity'', ObjCol [CStr ''corn'', CStr ''corn'']),
      (''nitrogen_loss1'', NumCol [Fin 1000000, Fin 4000]),
      (''nitrogen_loss2'', NumCol [Fin 500000, Fin 4000]),
      (''import_crop_processing_nitrogen'', NumCol [Fin 300000, Fin 200000]),
      (''export_crop_processing_nitrogen'', NumCol [Fin 100000, Fin 0]),
      (''selfloop_crop_processing_nitrogen'', NumCol [Fin 50000, Fin 25000])]"

definition animal_csv :: dataframe where
  "animal_csv =
     [(''FIPS'', NumCol [Fin 51001, Fin 51003]),
      (''county'', ObjCol [CStr ''Accomack County'', CStr ''Albemarle'']),
      (''commodity'', ObjCol [CStr ''dairy_cattle'', CStr ''dairy_cattle'']),
      (''nitrogen_loss3'', NumCol [Fin 4000, Fin 1000]),
      (''nitrogen_loss4'', NumCol [Fin 4000, Fin 1000]),
      (''nitrogen_loss5'', NumCol [Fin 4000, Fin 0]),
      (''nitrogen_loss6'', NumCol [Fin 4000, Fin 0]),
      (''nitrogen_loss7'', NumCol [Fin 4000, Fin 0]),
      (''import_animal_nitrogen'', NumCol [Fin 1500000, Fin 500000]),
      (''export_animal_nitrogen'', NumCol [Fin 400000, Fin 600000]),
      (''selfloop_animal_nitrogen'', NumCol [Fin 250000, Fin 250000]),
      (''import_meat_nitrogen'', NumCol [Fin 0, Fin 0]),
      (''export_meat_nitrogen'', NumCol [Fin 10000, Fin 0]),
      (''selfloop_meat_nitrogen'', NumCol [Fin 0, Fin 5000])]"

definition inventory_csv :: dataframe where
  "inventory_csv =
     [(''Commodity'', ObjCol [CStr ''dairy_cattle'', CStr ''broilers'']),
      (''Total Inventory (head)'', NumCol [Fin 1200, Fin 56000])]"

definition area_csv :: dataframe where
  "area_csv =
     [(''Commodity'', ObjCol [CStr ''corn'']),
      (''Total Harvested Area (Acre)'', NumCol [Fin (350125 / 1000)])]"

definition nitrogen_csv :: dataframe where
  "nitrogen_csv = [(''FIPS'', NumCol [Fin 51001]), (''nitrogen_loss1'', NumCol [Fin 1])]"

definition example_store :: store where
  "example_store p =
     (if p = ''/srv/app/data/2017/nitrogen_losses_summary.csv'' then Inr nitrogen_csv
      else if p = ''/srv/app/data/2017/harvested_area_by_commodity.csv'' then Inr area_csv
      else if p = ''/srv/app/data/2017/inventory_by_commodity.csv'' then Inr inventory_csv
      else if p = ''/srv/app/data/2017/crop_processing_nitrogen.csv'' then Inr crop_csv
      else if p = ''/srv/app/data/2017/animal_stage_nitrogen.csv'' then Inr animal_csv
      else Inl (ReadError p))"

definition crop_loaded :: dataframe where
  "crop_loaded =
     [(''FIPS'', NumCol [Fin 51001, Fin 51003]),
      (''county'', ObjCol [CStr ''Accomack'', CNum NaN]),
      (''commodity'', ObjCol [CStr ''corn'', CStr ''corn'']),
      (''nitrogen_loss1'', NumCol [Fin 1000000, Fin 4000]),
      (''nitrogen_loss2'', NumCol [Fin 500000, Fin 4000]),
      (''import_crop_processing_nitrogen'', NumCol [Fin 300000, Fin 200000]),
      (''export_crop_processing_nitrogen'', NumCol [Fin 100000, Fin 0]),
      (''within_county_crop_processing_nitrogen'', NumCol [Fin 50000, Fin 25000]),
      (''total_nitrogen_loss'', NumCol [Fin 1500000, Fin 8000])]"

definition animal_loaded :: dataframe where
  "animal_loaded =
     [(''FIPS'', NumCol [Fin 51001, Fin 51003]),
      (''county'', ObjCol [CStr ''Accomack County'', CStr ''Albemarle'']),
      (''commodity'', ObjCol [CStr ''dairy_cattle'', CStr ''dairy_cattle'']),
      (''nitrogen_loss3'', NumCol [Fin 4000, Fin 1000]),
      (''nitrogen_loss4'', NumCol [Fin 4000, Fin 1000]),
      (''nitrogen_loss5'', NumCol [Fin 4000, Fin 0]),
      (''nitrogen_loss6'', NumCol [Fin 4000, Fin 0]),
      (''nitrogen_loss7'', NumCol [Fin 4000, Fin 0]),
      (''import_animal_nitrogen'', NumCol [Fin 1500000, Fin 500000]),
      (''export_animal_nitrogen'', NumCol [Fin 400000, Fin 600000]),
      (''within_county_animal_nitrogen'', NumCol [Fin 250000, Fin 250000]),
      (''import_meat_nitrogen'', NumCol [Fin 0, Fin 0]),
      (''export_meat_nitrogen'', NumCol [Fin 10000, Fin 0]),
      (''within_county_meat_nitrogen'', NumCol [Fin 0, Fin 5000]),
      (''total_nitrogen_loss'', NumCol [Fin 20000, Fin 2000])]"

definition total_loaded :: dataframe where
  "total_loaded =
     [(''FIPS'', NumCol [Fin 51001, Fin 51003]),
      (''total_nitrogen_loss'', NumCol [Fin 1520000, Fin 10000]),
      (''county'', ObjCol [CStr ''Accomack'', CStr ''Albemarle''])]"

text \<open>The same files with the animal table missing.\<close>

definition missing_animal_store :: store where
  "missing_animal_store =
     example_store(''/srv/app/data/2017/animal_stage_nitrogen.csv'' :=
       Inl (ReadError ''No such file or directory''))"

section \<open>Basic facts about frames\<close>

lemma bind_err_Inl [simp]: "bind_err (Inl e) f = Inl e"
  by (simp add: bind_err_def)

lemma bind_err_Inr [simp]: "bind_err (Inr x) f = f x"
  by (simp add: bind_err_def)

lemma bind_err_eq_Inr: "bind_err m f = Inr y \<longleftrightarrow> (\<exists>x. m = Inr x \<and> f x = Inr y)"
  by (cases m) simp_all

lemma bind_err_assoc: "bind_err (bind_err m f) g = bind_err m (\<lambda>x. bind_err (f x) g)"
  by (cases m) simp_all

lemma filter_set_col_same:
  "filter (\<lambda>(n, w). n = c) (set_col df c v) =
     (if c \<in> fst ` set df then map (\<lambda>(n, w). (n, v)) (filter (\<lambda>(n, w). n = c) df) else [(c, v)])"
proof (cases "c \<in> fst ` set df")
  case True
  have "filter (\<lambda>(n, w). n = c) (map (\<lambda>(n, w). if n = c then (n, v) else (n, w)) df)
        = map (\<lambda>(n, w). (n, v)) (filter (\<lambda>(n, w). n = c) df)"
    by (induction df) auto
  with True show ?thesis by (simp add: set_col_def)
next
  case False
  then have "filter (\<lambda>(n, w). n = c) df = []"
    by (induction df) auto
  with False show ?thesis by (simp add: set_col_def)
qed

lemma filter_set_col_other:
  assumes "c' \<noteq> c"
  shows "filter (\<lambda>(n, w). n = c') (set_col df c v) = filter (\<lambda>(n, w). n = c') df"
proof -
  have "filter (\<lambda>(n, w). n = c') (map (\<lambda>(n, w). if n = c then (n, v) else (n, w)) df)
        = filter (\<lambda>(n, w). n = c') df"
    using assms by (induction df) (auto split: if_splits)
  with assms show ?thesis by (simp add: set_col_def)
qed

lemma lookup_col_set_col_other:
  "c' \<noteq> c \<Longrightarrow> lookup_col (set_col df c v) c' = lookup_col df c'"
  by (simp add: lookup_col_def filter_set_col_other)

lemma lookup_col_set_col_same:
  assumes "lookup_col (set_col df c v) c = Inr w"
  shows "w = v"
proof (cases "c \<in> fst ` set df")
  case True
  with assms show ?thesis
    by (auto simp: lookup_col_def filter_set_col_same split: list.splits)
next
  case False
  with assms show ?thesis
    by (simp add: lookup_col_def filter_set_col_same)
qed

lemma get_num_set_col_other:
  "c' \<noteq> c \<Longrightarrow> get_num (set_col df c v) c' = get_num df c'"
  by (simp add: get_num_def lookup_col_set_col_other)

lemma get_num_eq_Inr: "get_num df c = Inr xs \<longleftrightarrow> lookup_col df c = Inr (NumCol xs)"
  by (cases "lookup_col df c") (auto simp: get_num_def split: column.splits)

lemma get_nums_set_col_other:
  "c \<notin> set cs \<Longrightarrow> get_nums (set_col df c v) cs = get_nums df cs"
  by (induction cs) (auto simp: get_num_set_col_other)


lemma px_col_eq_Inr: "px_col df c = Inr cs \<longleftrightarrow> (\<exists>v. lookup_col df c = Inr v \<and> cs = col_cells v)"
  by (auto simp: px_col_def split: sum.splits)

lemma map_fst_set_col:
  "map fst (set_col df c v) = (if c \<in> fst ` set df then map fst df else map fst df @ [c])"
proof -
  have "map fst (map (\<lambda>(n, w). if n = c then (n, v) else (n, w)) df) = map fst df"
    by (induction df) auto
  then show ?thesis by (simp add: set_col_def)
qed

lemma distinct_set_col: "distinct (map fst df) \<Longrightarrow> distinct (map fst (set_col df c v))"
  by (simp add: map_fst_set_col)

lemma filter_distinct_names:
  "distinct (map fst df) \<Longrightarrow> c \<in> fst ` set df \<Longrightarrow> \<exists>w. filter (\<lambda>(n, w). n = c) df = [(c, w)]"
proof (induction df)
  case Nil
  then show ?case by simp
next
  case (Cons p df)
  obtain n w where p: "p = (n, w)" by (cases p)
  show ?case
  proof (cases "n = c")
    case True
    with Cons.prems p have "c \<notin> fst ` set df" by auto
    then have "filter (\<lambda>(n, w). n = c) df = []"
      by (induction df) auto
    with True p show ?thesis by simp
  next
    case False
    with Cons p show ?thesis by auto
  qed
qed

lemma lookup_col_set_col_distinct:
  assumes "distinct (map fst df)"
  shows "lookup_col (set_col df c v) c = Inr v"
proof (cases "c \<in> fst ` set df")
  case True
  from filter_distinct_names [OF assms True]
  obtain w where "filter (\<lambda>(n, w). n = c) df = [(c, w)]" ..
  with True show ?thesis by (simp add: lookup_col_def filter_set_col_same)
next
  case False
  then show ?thesis by (simp add: lookup_col_def filter_set_col_same)
qed

lemma agree_refl [simp]: "agree df df"
  by (simp add: agree_def)

lemma agree_trans: "agree a b \<Longrightarrow> agree b c \<Longrightarrow> agree a c"
  by (simp add: agree_def)

lemma agree_set_col_log: "prefix ''log_'' n \<Longrightarrow> agree df (set_col df n v)"
proof -
  assume n: "prefix ''log_'' n"
  have "lookup_col (set_col df n v) c = lookup_col df c" if "\<not> prefix ''log_'' c" for c
  proof -
    from that n have "c \<noteq> n" by blast
    then show ?thesis by (rule lookup_col_set_col_other)
  qed
  then show ?thesis unfolding agree_def by blast
qed

lemma agree_lookup: "agree df df' \<Longrightarrow> \<not> prefix ''log_'' c \<Longrightarrow> lookup_col df' c = lookup_col df c"
  by (simp add: agree_def)

lemma agree_get_num: "agree df df' \<Longrightarrow> \<not> prefix ''log_'' c \<Longrightarrow> get_num df' c = get_num df c"
  by (simp add: agree_def get_num_def)

lemma agree_get_nums:
  "agree df df' \<Longrightarrow> \<forall>c\<in>set cs. \<not> prefix ''log_'' c \<Longrightarrow> get_nums df' cs = get_nums df cs"
proof (induction cs)
  case Nil
  then show ?case by simp
next
  case (Cons c cs)
  then have "get_num df' c = get_num df c" "get_nums df' cs = get_nums df cs"
    using agree_get_num [of df df' c] by simp_all
  then show ?case by simp
qed

section \<open>Facts about strings and labels\<close>

lemmas str_defs = title_def is_lower_def is_upper_def to_upper_def to_lower_def ascii_lower_def
  ascii_upper_def startswith_def rename_col_def format_label_def tab_name_def str_replace.simps

lemma sublist_tl: "s \<noteq> [] \<Longrightarrow> sublist old (tl s) \<Longrightarrow> sublist old s"
  by (cases s) (auto simp: sublist_Cons_right)

lemma str_replace_absent:
  "old \<noteq> [] \<Longrightarrow> \<not> sublist old s \<Longrightarrow> str_replace old new s = s"
proof (induction old new s rule: str_replace.induct)
  case (1 old new s)
  show ?case
  proof (cases "s = []")
    case True
    with 1 show ?thesis by (simp add: str_replace.simps)
  next
    case False
    from 1(4) have np: "\<not> prefix old s" by (meson prefix_imp_sublist)
    from 1(4) False have "\<not> sublist old (tl s)" using sublist_tl by blast
    with 1 False np have "str_replace old new (tl s) = tl s" by simp
    with 1(3) False np show ?thesis by (simp add: str_replace.simps [of old new s])
  qed
qed

lemma str_replace_prefix:
  "old \<noteq> [] \<Longrightarrow> str_replace old new (old @ rest) = new @ str_replace old new rest"
  by (simp add: str_replace.simps [of old new "old @ rest"])

lemma rename_col_other: "\<not> prefix ''selfloop'' c \<Longrightarrow> rename_col c = c"
  by (simp add: rename_col_def startswith_def)

lemma rename_col_selfloop:
  "rename_col (''selfloop'' @ rest) = ''within_county'' @ str_replace ''selfloop'' ''within_county'' rest"
proof -
  have "prefix ''selfloop'' (''selfloop'' @ rest)" by (rule prefixI) simp
  then have "rename_col (''selfloop'' @ rest) = str_replace ''selfloop'' ''within_county'' (''selfloop'' @ rest)"
    unfolding rename_col_def startswith_def by (rule if_P)
  also have "\<dots> = ''within_county'' @ str_replace ''selfloop'' ''within_county'' rest"
    by (rule str_replace_prefix) simp
  finally show ?thesis .
qed

lemma rename_columns_values: "map snd (rename_columns df) = map snd df"
  by (induction df) (auto simp: rename_columns_def)

lemma rename_columns_names: "map fst (rename_columns df) = map rename_col (map fst df)"
  by (induction df) (auto simp: rename_columns_def)


lemma log_name_neq [simp]: "col \<noteq> ''log_'' @ col"
proof
  assume "col = ''log_'' @ col"
  then have "length col = length (''log_'' @ col)" by (rule arg_cong)
  then show False by simp
qed

lemma fixed_name_neq_log [simp]: "''FIPS'' \<noteq> ''log_'' @ col" "''county'' \<noteq> ''log_'' @ col"
  by simp_all

lemma path_join_inject [simp]: "path_join a b = path_join a c \<longleftrightarrow> b = c"
  by (auto simp: path_join_def)

section \<open>Facts about sums, groups and rounding\<close>








lemma col_cells_concat_col [simp]: "col_cells (concat_col a b) = col_cells a @ col_cells b"
  by (cases a; cases b) simp_all


lemma set_group_keys [simp]: "set (group_keys ks) = {k \<in> set ks. notnull k}"
  by (auto simp: group_keys_def)

lemma distinct_group_keys [simp]: "distinct (group_keys ks)"
  by (simp add: group_keys_def)











section \<open>Facts about loading\<close>

lemma load_data_Inr:
  "load_data fs base_dir year = Inr (n, a, i, crop, animal, tot) \<longleftrightarrow>
     (\<exists>path crop0 animal0. data_paths base_dir year = Inr path
        \<and> fs (path_join path ''nitrogen_losses_summary.csv'') = Inr n
        \<and> fs (path_join path ''harvested_area_by_commodity.csv'') = Inr a
        \<and> fs (path_join path ''inventory_by_commodity.csv'') = Inr i
        \<and> fs (path_join path ''crop_processing_nitrogen.csv'') = Inr crop0
        \<and> fs (path_join path ''animal_stage_nitrogen.csv'') = Inr animal0
        \<and> add_total (rename_columns crop0) crop_loss_cols = Inr crop
        \<and> add_total (rename_columns animal0) animal_loss_cols = Inr animal
        \<and> total_nitrogen crop animal = Inr tot)"
  by (auto simp: load_data_def bind_err_eq_Inr read_csv_def)

lemma add_total_Inr:
  "add_total df cols = Inr df' \<longleftrightarrow>
     (\<exists>xss. get_nums df cols = Inr xss \<and> df' = set_col df ''total_nitrogen_loss'' (NumCol (sum_axis1 xss)))"
  by (auto simp: add_total_def bind_err_eq_Inr)

lemma total_nitrogen_Inr:
  "total_nitrogen crop animal = Inr tot \<longleftrightarrow>
     (\<exists>cf cc ctot af ac atot. lookup_col crop ''FIPS'' = Inr cf \<and> lookup_col crop ''county'' = Inr cc
        \<and> get_num crop ''total_nitrogen_loss'' = Inr ctot
        \<and> lookup_col animal ''FIPS'' = Inr af \<and> lookup_col animal ''county'' = Inr ac
        \<and> get_num animal ''total_nitrogen_loss'' = Inr atot
        \<and> tot = [(''FIPS'', cells_as (concat_col cf af) (group_keys (col_cells (concat_col cf af)))),
               (''total_nitrogen_loss'', NumCol (groupby_sum (col_cells (concat_col cf af)) (ctot @ atot))),
               (''county'', cells_as (concat_col cc ac)
                   (groupby_first (col_cells (concat_col cf af)) (col_cells (concat_col cc ac))))])"
  by (auto simp: total_nitrogen_def bind_err_eq_Inr Let_def)

lemma lookup_col_total_frame:
  "lookup_col [(''FIPS'', f), (''total_nitrogen_loss'', t), (''county'', c)] ''FIPS'' = Inr f"
  "lookup_col [(''FIPS'', f), (''total_nitrogen_loss'', t), (''county'', c)] ''total_nitrogen_loss'' = Inr t"
  "lookup_col [(''FIPS'', f), (''total_nitrogen_loss'', t), (''county'', c)] ''county'' = Inr c"
  by (simp_all add: lookup_col_def)


lemma load_data_columns:
  assumes "load_data fs base_dir year = Inr (n, area, inventory, crop, animal, tot)"
  shows "\<exists>cf cc af ac xss yss F T C.
      lookup_col crop ''FIPS'' = Inr cf \<and> lookup_col crop ''county'' = Inr cc
    \<and> lookup_col animal ''FIPS'' = Inr af \<and> lookup_col animal ''county'' = Inr ac
    \<and> get_nums crop crop_loss_cols = Inr xss \<and> get_nums animal animal_loss_cols = Inr yss
    \<and> tot = [(''FIPS'', F), (''total_nitrogen_loss'', NumCol T), (''county'', C)]"
proof -
  from assms obtain crop0 animal0 where
    crop: "add_total (rename_columns crop0) crop_loss_cols = Inr crop"
    and animal: "add_total (rename_columns animal0) animal_loss_cols = Inr animal"
    and tot: "total_nitrogen crop animal = Inr tot"
    by (auto simp: load_data_Inr)
  have "\<exists>xss. get_nums crop crop_loss_cols = Inr xss"
  proof -
    from crop obtain xss where x: "get_nums (rename_columns crop0) crop_loss_cols = Inr xss"
      and c: "crop = set_col (rename_columns crop0) ''total_nitrogen_loss'' (NumCol (sum_axis1 xss))"
      by (auto simp: add_total_Inr)
    have "''total_nitrogen_loss'' \<notin> set crop_loss_cols" by (simp add: crop_loss_cols_def)
    from get_nums_set_col_other [OF this] x c show ?thesis by simp
  qed
  moreover have "\<exists>yss. get_nums animal animal_loss_cols = Inr yss"
  proof -
    from animal obtain yss where y: "get_nums (rename_columns animal0) animal_loss_cols = Inr yss"
      and c: "animal = set_col (rename_columns animal0) ''total_nitrogen_loss'' (NumCol (sum_axis1 yss))"
      by (auto simp: add_total_Inr)
    have "''total_nitrogen_loss'' \<notin> set animal_loss_cols" by (simp add: animal_loss_cols_def)
    from get_nums_set_col_other [OF this] y c show ?thesis by simp
  qed
  moreover from tot obtain cf cc af ac F T C where
    "lookup_col crop ''FIPS'' = Inr cf" "lookup_col crop ''county'' = Inr cc"
    "lookup_col animal ''FIPS'' = Inr af" "lookup_col animal ''county'' = Inr ac"
    "tot = [(''FIPS'', F), (''total_nitrogen_loss'', NumCol T), (''county'', C)]"
    by (auto simp: total_nitrogen_Inr)
  ultimately show ?thesis by blast
qed

lemma load_data_read_failure:
  assumes "data_paths base_dir year = Inr path"
    and "f \<in> set [''nitrogen_losses_summary.csv'', ''harvested_area_by_commodity.csv'',
                    ''inventory_by_commodity.csv'', ''crop_processing_nitrogen.csv'',
                    ''animal_stage_nitrogen.csv'']"
    and "read_csv fs (path_join path f) = Inl e"
  shows "\<exists>e'. load_data fs base_dir year = Inl e'
          \<and> (\<exists>f'\<in>set [''nitrogen_losses_summary.csv'', ''harvested_area_by_commodity.csv'',
                    ''inventory_by_commodity.csv'', ''crop_processing_nitrogen.csv'',
                    ''animal_stage_nitrogen.csv'']. read_csv fs (path_join path f') = Inl e')"
proof (cases "read_csv fs (path_join path ''nitrogen_losses_summary.csv'')")
  case (Inl e1)
  with assms(1) show ?thesis by (auto simp: load_data_def)
next
  case n: (Inr nitrogen_df)
  show ?thesis
  proof (cases "read_csv fs (path_join path ''harvested_area_by_commodity.csv'')")
    case (Inl e2)
    with assms(1) n show ?thesis by (auto simp: load_data_def)
  next
    case a: (Inr area_df)
    show ?thesis
    proof (cases "read_csv fs (path_join path ''inventory_by_commodity.csv'')")
      case (Inl e3)
      with assms(1) n a show ?thesis by (auto simp: load_data_def)
    next
      case i: (Inr inventory_df)
      show ?thesis
      proof (cases "read_csv fs (path_join path ''crop_processing_nitrogen.csv'')")
        case (Inl e4)
        with assms(1) n a i show ?thesis by (auto simp: load_data_def)
      next
        case c: (Inr crop0)
        from assms(2,3) n a i c
        have "read_csv fs (path_join path ''animal_stage_nitrogen.csv'') = Inl e" by auto
        with assms(1) n a i c show ?thesis by (auto simp: load_data_def)
      qed
    qed
  qed
qed

lemma load_data_nitrogen_readable:
  "load_data (fs(path_join (path_join (path_join base_dir ''data'') year) ''nitrogen_losses_summary.csv'' := Inr d))
     base_dir year
   = bind_err (data_paths base_dir year) (\<lambda>path.
     bind_err (read_csv fs (path_join path ''harvested_area_by_commodity.csv'')) (\<lambda>area_df.
     bind_err (read_csv fs (path_join path ''inventory_by_commodity.csv'')) (\<lambda>inventory_df.
     bind_err (read_csv fs (path_join path ''crop_processing_nitrogen.csv'')) (\<lambda>crop0.
     bind_err (read_csv fs (path_join path ''animal_stage_nitrogen.csv'')) (\<lambda>animal0.
     bind_err (add_total (rename_columns crop0) crop_loss_cols) (\<lambda>crop_df.
     bind_err (add_total (rename_columns animal0) animal_loss_cols) (\<lambda>animal_df.
     bind_err (total_nitrogen crop_df animal_df) (\<lambda>total_nitrogen_df.
       Inr (d, area_df, inventory_df, crop_df, animal_df, total_nitrogen_df)))))))))"
  by (simp add: load_data_def data_paths_def read_csv_def)

lemma load_data_nitrogen_unreadable:
  "year \<in> set years \<Longrightarrow>
   load_data (fs(path_join (path_join (path_join base_dir ''data'') year) ''nitrogen_losses_summary.csv'' := Inl e))
     base_dir year = Inl e"
  by (simp add: load_data_def data_paths_def read_csv_def)


section \<open>Facts about the callback\<close>

lemma log_map_Inr:
  assumes "log_map df col ttl label = Inr (fig, df')"
  shows "\<exists>xs. get_num df col = Inr xs
           \<and> df' = set_col df (''log_'' @ col) (NumCol (map log1p xs))
           \<and> fig_hover_data fig = map CNum xs
           \<and> fig_color fig = map (CNum \<circ> log1p) xs
           \<and> fig_title fig = ttl \<and> fig_color_label fig = label"
proof -
  from assms obtain xs where xs: "get_num df col = Inr xs"
    and df': "df' = set_col df (''log_'' @ col) (NumCol (map log1p xs))"
    and fig: "px_choropleth df' ''FIPS'' (''log_'' @ col) ''county'' col ttl label = Inr fig"
    by (auto simp: log_map_def bind_err_eq_Inr Let_def)
  from fig obtain ls cs hs ds where
      cs: "px_col df' (''log_'' @ col) = Inr cs" and ds: "px_col df' col = Inr ds"
      and f: "fig = \<lparr>fig_title = ttl, fig_locations = ls, fig_color = cs, fig_hover_name = hs,
            fig_hover_data = ds, fig_color_label = label\<rparr>"
    by (auto simp: px_choropleth_def bind_err_eq_Inr)
  from cs df' have "cs = map (CNum \<circ> log1p) xs"
    by (auto simp: px_col_eq_Inr dest!: lookup_col_set_col_same)
  moreover from ds df' xs have "ds = map CNum xs"
    by (auto simp: px_col_eq_Inr lookup_col_set_col_other get_num_eq_Inr)
  ultimately show ?thesis using xs df' f by simp
qed

lemma log_map_ok:
  assumes "distinct (map fst df)" and "get_num df col = Inr xs"
    and "lookup_col df ''FIPS'' = Inr f" and "lookup_col df ''county'' = Inr cn"
  shows "log_map df col ttl label =
     Inr (\<lparr>fig_title = ttl, fig_locations = col_cells f, fig_color = map (CNum \<circ> log1p) xs,
           fig_hover_name = col_cells cn, fig_hover_data = map CNum xs, fig_color_label = label\<rparr>,
          set_col df (''log_'' @ col) (NumCol (map log1p xs)))"
proof -
  let ?df' = "set_col df (''log_'' @ col) (NumCol (map log1p xs))"
  have 1: "px_col ?df' ''FIPS'' = Inr (col_cells f)" "px_col ?df' ''county'' = Inr (col_cells cn)"
    using assms(3,4) by (simp_all add: px_col_def lookup_col_set_col_other)
  have 2: "px_col ?df' (''log_'' @ col) = Inr (map (CNum \<circ> log1p) xs)"
    using assms(1) by (simp add: px_col_def lookup_col_set_col_distinct)
  have 3: "px_col ?df' col = Inr (map CNum xs)"
    using assms(2) by (simp add: px_col_def lookup_col_set_col_other get_num_eq_Inr)
  show ?thesis
    using assms(2) 1 2 3 by (simp add: log_map_def px_choropleth_def Let_def)
qed

lemma log_map_keeps:
  assumes "log_map df col ttl label = Inr (fig, df')"
  shows "agree df df'" and "distinct (map fst df) \<Longrightarrow> distinct (map fst df')"
proof -
  from log_map_Inr [OF assms] obtain xs where
    "df' = set_col df (''log_'' @ col) (NumCol (map log1p xs))" by blast
  then show "agree df df'" and "distinct (map fst df) \<Longrightarrow> distinct (map fst df')"
    by (simp_all add: agree_set_col_log distinct_set_col)
qed

lemma log_map_colored:
  "log_map df col ttl label = Inr (fig, df') \<Longrightarrow> log_colored \<lparr>tab_label = l, tab_figure = fig\<rparr>"
  using log_map_Inr [of df col ttl label fig df'] by (auto simp: log_colored_def)

lemma loss_maps_Inr:
  assumes "loss_maps i ls crop animal = Inr (tabs, crop', animal')"
  shows "agree crop crop' \<and> agree animal animal'
       \<and> (distinct (map fst crop) \<longrightarrow> distinct (map fst crop'))
       \<and> (distinct (map fst animal) \<longrightarrow> distinct (map fst animal'))
       \<and> map tab_label tabs = map snd ls \<and> list_all log_colored tabs"
  using assms
proof (induction ls arbitrary: i crop animal tabs)
  case Nil
  then show ?case by simp
next
  case (Cons p ls)
  obtain col label where p: "p = (col, label)" by (cases p)
  from Cons.prems p obtain fig df tabs' where
    lm: "log_map (if i < 2 then crop else animal) col (''<b>'' @ label @ ''</b>'') ''Log Nitrogen Loss''
           = Inr (fig, df)"
    and rest: "loss_maps (i + 1) ls (if i < 2 then df else crop) (if i < 2 then animal else df)
           = Inr (tabs', crop', animal')"
    and tabs: "tabs = \<lparr>tab_label = label, tab_figure = fig\<rparr> # tabs'"
    by (auto simp: bind_err_eq_Inr)
  note k = log_map_keeps [OF lm] log_map_colored [OF lm, of label]
  note ih = Cons.IH [OF rest]
  show ?case
  proof (cases "i < 2")
    case True
    with k ih show ?thesis by (auto simp: tabs p intro: agree_trans)
  next
    case False
    with k ih show ?thesis by (auto simp: tabs p intro: agree_trans)
  qed
qed

lemma trade_maps_Inr:
  assumes "trade_maps stage cols df = Inr (tabs, df')"
  shows "agree df df' \<and> (distinct (map fst df) \<longrightarrow> distinct (map fst df'))
       \<and> map tab_label tabs = map tab_name cols \<and> list_all log_colored tabs"
  using assms
proof (induction cols arbitrary: df tabs)
  case Nil
  then show ?case by simp
next
  case (Cons col cols)
  from Cons.prems obtain fig df1 tabs' where
    lm: "log_map df col (''<b>'' @ tab_name col @ '' - '' @ stage @ ''<b>'') ''Log Nitrogen'' = Inr (fig, df1)"
    and rest: "trade_maps stage cols df1 = Inr (tabs', df')"
    and tabs: "tabs = \<lparr>tab_label = tab_name col, tab_figure = fig\<rparr> # tabs'"
    by (auto simp: bind_err_eq_Inr)
  note k = log_map_keeps [OF lm] log_map_colored [OF lm, of "tab_name col"]
  note ih = Cons.IH [OF rest]
  from k ih show ?case by (auto simp: tabs intro: agree_trans)
qed

lemma trade_table_agree:
  assumes "agree df df'" and "\<forall>c\<in>set cols. \<not> prefix ''log_'' c"
  shows "trade_table df' cols = trade_table df cols"
proof -
  have "lookup_col df' ''commodity'' = lookup_col df ''commodity''"
    using assms(1) by (rule agree_lookup) simp
  moreover have "get_nums df' cols = get_nums df cols"
    using assms by (rule agree_get_nums)
  ultimately show ?thesis by (simp add: trade_table_def)
qed

lemma import_export_sections_Inr:
  assumes "import_export_sections idx sts crop animal = Inr (secs, crop', animal')"
    and "\<forall>s\<in>set sts. \<forall>c\<in>set (snd s). \<not> prefix ''log_'' c"
  shows "agree crop crop' \<and> agree animal animal'
       \<and> length secs = length sts
       \<and> (\<forall>j<length sts. stage_heading (secs ! j) = fst (sts ! j)
             \<and> map tab_label (stage_tabs (secs ! j)) = map tab_name (snd (sts ! j))
             \<and> list_all log_colored (stage_tabs (secs ! j))
             \<and> (\<exists>tbl. trade_table (if idx + j = 0 then crop else animal) (snd (sts ! j)) = Inr tbl
                    \<and> stage_table (secs ! j) = make_table tbl))"
  using assms
proof (induction sts arbitrary: idx crop animal secs)
  case Nil
  then show ?case by simp
next
  case (Cons p sts)
  obtain stage columns where p: "p = (stage, columns)" by (cases p)
  let ?df = "if idx = 0 then crop else animal"
  from Cons.prems(1) p obtain tabs df tbl secs' where
    tm: "trade_maps stage columns ?df = Inr (tabs, df)"
    and tt: "trade_table df columns = Inr tbl"
    and rest: "import_export_sections (idx + 1) sts (if idx = 0 then df else crop)
                 (if idx = 0 then animal else df) = Inr (secs', crop', animal')"
    and secs: "secs = \<lparr>stage_heading = stage, stage_tabs = tabs, stage_table = make_table tbl\<rparr> # secs'"
    by (auto simp: bind_err_eq_Inr)
  from Cons.prems(2) p have nl: "\<forall>c\<in>set columns. \<not> prefix ''log_'' c"
    and nls: "\<forall>s\<in>set sts. \<forall>c\<in>set (snd s). \<not> prefix ''log_'' c" by auto
  note k = trade_maps_Inr [OF tm]
  from k have ag: "agree ?df df" by simp
  have tt0: "trade_table ?df columns = Inr tbl"
    using trade_table_agree [OF ag nl] tt by simp
  note ih = Cons.IH [OF rest nls]
  have ag_crop: "agree crop crop'" and ag_animal: "agree animal animal'"
    using ih ag by (auto split: if_splits intro: agree_trans)
  have later: "\<exists>tbl. trade_table (if idx + Suc j = 0 then crop else animal) (snd (sts ! j)) = Inr tbl
                    \<and> stage_table (secs' ! j) = make_table tbl" if j: "j < length sts" for j
  proof -
    from ih j obtain tbl' where
      t: "trade_table (if idx = 0 then animal else df) (snd (sts ! j)) = Inr tbl'"
      and s: "stage_table (secs' ! j) = make_table tbl'"
      by auto
    from nls j have nlj: "\<forall>c\<in>set (snd (sts ! j)). \<not> prefix ''log_'' c" by auto
    have "trade_table animal (snd (sts ! j)) = Inr tbl'"
    proof (cases "idx = 0")
      case True
      with t show ?thesis by simp
    next
      case False
      with ag have "agree animal df" by simp
      from trade_table_agree [OF this nlj] t False show ?thesis by simp
    qed
    with s show ?thesis by auto
  qed
  have len: "length secs = length (p # sts)" using ih secs by simp
  have rows: "stage_heading (secs ! j) = fst ((p # sts) ! j)
             \<and> map tab_label (stage_tabs (secs ! j)) = map tab_name (snd ((p # sts) ! j))
             \<and> list_all log_colored (stage_tabs (secs ! j))
             \<and> (\<exists>tbl. trade_table (if idx + j = 0 then crop else animal) (snd ((p # sts) ! j)) = Inr tbl
                    \<and> stage_table (secs ! j) = make_table tbl)" if j: "j < length (p # sts)" for j
  proof (cases j)
    case 0
    with k tt0 show ?thesis by (simp add: secs p)
  next
    case (Suc j')
    with j have j': "j' < length sts" by simp
    from ih j' later [OF j'] show ?thesis by (simp add: secs Suc)
  qed
  from ag_crop ag_animal len rows show ?case by blast
qed

lemma update_dashboard_Inr:
  "update_dashboard fs base_dir year = Inr (m, t, tr, e, p) \<longleftrightarrow>
     (\<exists>n area inv crop animal tot loss_tabs crop1 animal1 total_tab loss_table secs crop2 animal2.
        load_data fs base_dir year = Inr (n, area, inv, crop, animal, tot)
      \<and> loss_maps 0 nitrogen_loss_labels crop animal = Inr (loss_tabs, crop1, animal1)
      \<and> total_loss_map tot = Inr total_tab
      \<and> nitrogen_loss_table crop1 animal1 = Inr loss_table
      \<and> import_export_sections 0 stages crop1 animal1 = Inr (secs, crop2, animal2)
      \<and> production_totals inv area = Inr p
      \<and> m = \<lparr>maps_heading = ''In What Stage Is Nitrogen Lost in the Food and Animal Supply Chain?'',
               maps_tabs = loss_tabs @ [total_tab]\<rparr>
      \<and> t = make_table loss_table
      \<and> tr = \<lparr>trade_heading = ''Where Does Nitrogen Loss Occur in the Chesapeake Bay?'',
                trade_stages = secs\<rparr>
      \<and> e = [])"
  by (auto simp: update_dashboard_def bind_err_eq_Inr)

lemma update_dashboard_load_Inl:
  "load_data fs base_dir year = Inl e \<Longrightarrow> update_dashboard fs base_dir year = Inl e"
  by (simp add: update_dashboard_def)

lemma column_sums_agree:
  "agree df df' \<Longrightarrow> \<forall>c\<in>set cols. \<not> prefix ''log_'' c \<Longrightarrow> column_sums df' cols = column_sums df cols"
  by (simp add: column_sums_def agree_get_nums)

lemma nitrogen_loss_table_agree:
  assumes "agree crop crop'" and "agree animal animal'"
  shows "nitrogen_loss_table crop' animal' = nitrogen_loss_table crop animal"
proof -
  have "column_sums crop' crop_loss_cols = column_sums crop crop_loss_cols"
    using assms(1) by (rule column_sums_agree) (simp add: crop_loss_cols_def)
  moreover have "column_sums animal' animal_loss_cols = column_sums animal animal_loss_cols"
    using assms(2) by (rule column_sums_agree) (simp add: animal_loss_cols_def)
  ultimately show ?thesis by (simp add: nitrogen_loss_table_def)
qed






lemma stages_length: "length stages = 3"
  by (simp add: stages_def)

lemma stages_columns: "j < 3 \<Longrightarrow> length (snd (stages ! j)) = 3"
proof -
  assume "j < 3"
  then consider "j = 0" | "j = 1" | "j = 2" by linarith
  then show ?thesis by cases (simp_all add: stages_def)
qed


lemma stages_not_log: "\<forall>s\<in>set stages. \<forall>c\<in>set (snd s). \<not> prefix ''log_'' c"
  by (simp add: stages_def)


lemma loss_maps_ok:
  assumes "distinct (map fst crop)" and "distinct (map fst animal)"
    and "lookup_col crop ''FIPS'' = Inr cf" and "lookup_col crop ''county'' = Inr cc"
    and "lookup_col animal ''FIPS'' = Inr af" and "lookup_col animal ''county'' = Inr ac"
    and "\<forall>j<length ls. \<not> prefix ''log_'' (fst (ls ! j))
           \<and> (\<exists>xs. get_num (if i + j < 2 then crop else animal) (fst (ls ! j)) = Inr xs)"
  shows "\<exists>tabs crop' animal'. loss_maps i ls crop animal = Inr (tabs, crop', animal')"
  using assms
proof (induction ls arbitrary: i crop animal)
  case Nil
  then show ?case by simp
next
  case (Cons p ls)
  obtain col label where p: "p = (col, label)" by (cases p)
  let ?df = "if i < 2 then crop else animal"
  from Cons.prems(7) [rule_format, of 0] p obtain xs where
    nl: "\<not> prefix ''log_'' col" and xs: "get_num ?df col = Inr xs"
    by auto
  have d: "distinct (map fst ?df)" using Cons.prems(1,2) by simp
  obtain f c where fc: "lookup_col ?df ''FIPS'' = Inr f" "lookup_col ?df ''county'' = Inr c"
    using Cons.prems(3-6) by (cases "i < 2") auto
  define df' where "df' = set_col ?df (''log_'' @ col) (NumCol (map log1p xs))"
  from log_map_ok [OF d xs fc] obtain fig where
    lm: "log_map ?df col (''<b>'' @ label @ ''</b>'') ''Log Nitrogen Loss'' = Inr (fig, df')"
    unfolding df'_def by blast
  note k = log_map_keeps [OF lm]
  let ?crop = "if i < 2 then df' else crop"
  let ?animal = "if i < 2 then animal else df'"
  have ac: "agree crop ?crop" and aa: "agree animal ?animal"
    using k(1) by (auto split: if_splits)
  have dc: "distinct (map fst ?crop)" and da: "distinct (map fst ?animal)"
    using k(2) d Cons.prems(1,2) by (auto split: if_splits)
  have l: "lookup_col ?crop ''FIPS'' = Inr cf" "lookup_col ?crop ''county'' = Inr cc"
    "lookup_col ?animal ''FIPS'' = Inr af" "lookup_col ?animal ''county'' = Inr ac"
    using agree_lookup [OF ac, of "''FIPS''"] agree_lookup [OF ac, of "''county''"]
      agree_lookup [OF aa, of "''FIPS''"] agree_lookup [OF aa, of "''county''"] Cons.prems(3-6)
    by simp_all
  have cols: "\<forall>j<length ls. \<not> prefix ''log_'' (fst (ls ! j))
           \<and> (\<exists>xs. get_num (if (i + 1) + j < 2 then ?crop else ?animal) (fst (ls ! j)) = Inr xs)"
  proof (intro allI impI)
    fix j assume j: "j < length ls"
    with Cons.prems(7) [rule_format, of "Suc j"] obtain ys where
      n: "\<not> prefix ''log_'' (fst (ls ! j))"
      and ys: "get_num (if i + Suc j < 2 then crop else animal) (fst (ls ! j)) = Inr ys"
      by auto
    have "get_num (if (i + 1) + j < 2 then ?crop else ?animal) (fst (ls ! j)) = Inr ys"
    proof (cases "i + Suc j < 2")
      case True
      then have "(i + 1) + j < 2" by simp
      then have "get_num (if (i + 1) + j < 2 then ?crop else ?animal) (fst (ls ! j))
          = get_num ?crop (fst (ls ! j))" by (simp only: if_True)
      also have "\<dots> = get_num crop (fst (ls ! j))" using ac n by (rule agree_get_num)
      also have "\<dots> = Inr ys" using ys True by (simp only: if_True)
      finally show ?thesis .
    next
      case False
      then have "\<not> (i + 1) + j < 2" by simp
      then have "get_num (if (i + 1) + j < 2 then ?crop else ?animal) (fst (ls ! j))
          = get_num ?animal (fst (ls ! j))" by (simp only: if_False)
      also have "\<dots> = get_num animal (fst (ls ! j))" using aa n by (rule agree_get_num)
      also have "\<dots> = Inr ys" using ys False by (simp only: if_False)
      finally show ?thesis .
    qed
    with n show "\<not> prefix ''log_'' (fst (ls ! j))
           \<and> (\<exists>xs. get_num (if (i + 1) + j < 2 then ?crop else ?animal) (fst (ls ! j)) = Inr xs)"
      by blast
  qed
  from Cons.IH [OF dc da l cols] obtain tabs crop' animal' where
    "loss_maps (i + 1) ls ?crop ?animal = Inr (tabs, crop', animal')" by blast
  with lm p show ?case by simp
qed

lemma loss_maps_labels_ok:
  assumes "distinct (map fst crop)" and "distinct (map fst animal)"
    and "lookup_col crop ''FIPS'' = Inr cf" and "lookup_col crop ''county'' = Inr cc"
    and "lookup_col animal ''FIPS'' = Inr af" and "lookup_col animal ''county'' = Inr ac"
    and "get_nums crop crop_loss_cols = Inr xss" and "get_nums animal animal_loss_cols = Inr yss"
  shows "\<exists>tabs crop' animal'. loss_maps 0 nitrogen_loss_labels crop animal = Inr (tabs, crop', animal')"
proof (rule loss_maps_ok [OF assms(1-6)], intro allI impI)
  fix j assume "j < length nitrogen_loss_labels"
  then have "j < 7" by (simp add: nitrogen_loss_labels_def)
  then consider "j = 0" | "j = 1" | "j = 2" | "j = 3" | "j = 4" | "j = 5" | "j = 6" by linarith
  then show "\<not> prefix ''log_'' (fst (nitrogen_loss_labels ! j))
       \<and> (\<exists>xs. get_num (if 0 + j < 2 then crop else animal) (fst (nitrogen_loss_labels ! j)) = Inr xs)"
  proof cases
    case 1
    with assms(7) show ?thesis
      by (auto simp: nitrogen_loss_labels_def crop_loss_cols_def bind_err_eq_Inr)
  next
    case 2
    with assms(7) show ?thesis
      by (auto simp: nitrogen_loss_labels_def crop_loss_cols_def bind_err_eq_Inr)
  next
    case 3
    with assms(8) show ?thesis
      by (auto simp: nitrogen_loss_labels_def animal_loss_cols_def bind_err_eq_Inr)
  next
    case 4
    with assms(8) show ?thesis
      by (auto simp: nitrogen_loss_labels_def animal_loss_cols_def bind_err_eq_Inr)
  next
    case 5
    with assms(8) show ?thesis
      by (auto simp: nitrogen_loss_labels_def animal_loss_cols_def bind_err_eq_Inr)
  next
    case 6
    with assms(8) show ?thesis
      by (auto simp: nitrogen_loss_labels_def animal_loss_cols_def bind_err_eq_Inr)
  next
    case 7
    with assms(8) show ?thesis
      by (auto simp: nitrogen_loss_labels_def animal_loss_cols_def bind_err_eq_Inr)
  qed
qed

lemma trade_maps_ok:
  assumes "distinct (map fst df)"
    and "lookup_col df ''FIPS'' = Inr f" and "lookup_col df ''county'' = Inr c"
    and "\<forall>col\<in>set cols. \<not> prefix ''log_'' col \<and> (\<exists>xs. get_num df col = Inr xs)"
  shows "\<exists>tabs df'. trade_maps stage cols df = Inr (tabs, df')"
  using assms
proof (induction cols arbitrary: df)
  case Nil
  then show ?case by simp
next
  case (Cons col cols)
  from Cons.prems(4) obtain xs where xs: "get_num df col = Inr xs" by auto
  define df' where "df' = set_col df (''log_'' @ col) (NumCol (map log1p xs))"
  from log_map_ok [OF Cons.prems(1) xs Cons.prems(2,3)] obtain fig where
    lm: "log_map df col (''<b>'' @ tab_name col @ '' - '' @ stage @ ''<b>'') ''Log Nitrogen'' = Inr (fig, df')"
    unfolding df'_def by blast
  note k = log_map_keeps [OF lm]
  have l: "lookup_col df' ''FIPS'' = Inr f" "lookup_col df' ''county'' = Inr c"
    using agree_lookup [OF k(1), of "''FIPS''"] agree_lookup [OF k(1), of "''county''"] Cons.prems(2,3)
    by simp_all
  have cols: "\<forall>col\<in>set cols. \<not> prefix ''log_'' col \<and> (\<exists>xs. get_num df' col = Inr xs)"
    using Cons.prems(4) agree_get_num [OF k(1)] by auto
  from Cons.IH [OF k(2) [OF Cons.prems(1)] l cols] obtain tabs df'' where
    "trade_maps stage cols df' = Inr (tabs, df'')" by blast
  with lm show ?case by simp
qed

lemma trade_table_ok:
  assumes "lookup_col df ''commodity'' = Inr (ObjCol ks)" and "CStr s \<in> set ks"
    and "\<forall>col\<in>set cols. \<exists>xs. get_num df col = Inr xs"
  shows "\<exists>tbl. trade_table df cols = Inr tbl"
proof -
  from assms(3) have "\<exists>flows. get_nums df cols = Inr flows"
  proof (induction cols)
    case Nil
    then show ?case by simp
  next
    case (Cons c cols)
    then obtain xs flows where "get_num df c = Inr xs" "get_nums df cols = Inr flows" by auto
    then show ?case by simp
  qed
  then obtain flows where flows: "get_nums df cols = Inr flows" ..
  define gk where "gk = group_keys ks"
  from assms(2) have "CStr s \<in> set gk" by (simp add: gk_def)
  then have "\<not> list_all (\<lambda>c. case c of CNum x \<Rightarrow> True | CStr s \<Rightarrow> False) gk"
    unfolding list_all_iff by (intro notI) (drule (1) bspec, simp)
  then have "\<exists>labels. format_labels (ObjCol gk) = Inr labels" by simp
  then have "\<exists>labels. format_labels (ObjCol (group_keys ks)) = Inr labels" by (simp only: gk_def)
  with assms(1) flows show ?thesis
    by (auto simp: trade_table_def Let_def)
qed

lemma stage_section_ok:
  assumes "distinct (map fst df)"
    and "lookup_col df ''FIPS'' = Inr f" and "lookup_col df ''county'' = Inr c"
    and "lookup_col df ''commodity'' = Inr (ObjCol ks)" and "CStr s \<in> set ks"
    and "\<forall>col\<in>set cols. \<not> prefix ''log_'' col \<and> (\<exists>xs. get_num df col = Inr xs)"
  shows "\<exists>tabs df' tbl. trade_maps stage cols df = Inr (tabs, df') \<and> trade_table df' cols = Inr tbl
      \<and> agree df df' \<and> distinct (map fst df')"
proof -
  from trade_maps_ok [OF assms(1-3,6)] obtain tabs df' where
    tm: "trade_maps stage cols df = Inr (tabs, df')" by blast
  from trade_maps_Inr [OF tm] assms(1) have k: "agree df df'" "distinct (map fst df')" by simp_all
  from assms(6) have "\<forall>col\<in>set cols. \<exists>xs. get_num df col = Inr xs" by blast
  from trade_table_ok [OF assms(4,5) this] obtain tbl where "trade_table df cols = Inr tbl" ..
  moreover from assms(6) have "\<forall>col\<in>set cols. \<not> prefix ''log_'' col" by blast
  ultimately have "trade_table df' cols = Inr tbl"
    using trade_table_agree [OF k(1)] by simp
  with tm k show ?thesis by blast
qed

lemma total_loss_map_ok:
  "\<exists>tb. total_loss_map [(''FIPS'', F), (''total_nitrogen_loss'', NumCol T), (''county'', C)] = Inr tb"
proof -
  let ?tot = "[(''FIPS'', F), (''total_nitrogen_loss'', NumCol T), (''county'', C)]"
  have d: "distinct (map fst ?tot)" by simp
  have l: "get_num ?tot ''total_nitrogen_loss'' = Inr T" "lookup_col ?tot ''FIPS'' = Inr F"
    "lookup_col ?tot ''county'' = Inr C"
    by (simp_all add: get_num_eq_Inr lookup_col_total_frame)
  from log_map_ok [OF d l] show ?thesis by (simp add: total_loss_map_def)
qed

lemma nitrogen_loss_table_ok:
  "get_nums crop crop_loss_cols = Inr xss \<Longrightarrow> get_nums animal animal_loss_cols = Inr yss \<Longrightarrow>
   \<exists>tbl. nitrogen_loss_table crop animal = Inr tbl"
  by (simp add: nitrogen_loss_table_def column_sums_def Let_def)

lemma import_export_sections_ok:
  assumes "distinct (map fst crop)" and "distinct (map fst animal)"
    and "lookup_col crop ''FIPS'' = Inr cf" and "lookup_col crop ''county'' = Inr cc"
    and "lookup_col animal ''FIPS'' = Inr af" and "lookup_col animal ''county'' = Inr ac"
    and "lookup_col crop ''commodity'' = Inr (ObjCol kc)" and "CStr sc \<in> set kc"
    and "lookup_col animal ''commodity'' = Inr (ObjCol ka)" and "CStr sa \<in> set ka"
    and "\<forall>col\<in>set (snd (stages ! 0)). \<exists>xs. get_num crop col = Inr xs"
    and "\<forall>col\<in>set (snd (stages ! 1) @ snd (stages ! 2)). \<exists>xs. get_num animal col = Inr xs"
  shows "\<exists>secs crop' animal'. import_export_sections 0 stages crop animal = Inr (secs, crop', animal')"
proof -
  let ?c0 = "[''import_crop_processing_nitrogen'', ''export_crop_processing_nitrogen'',
              ''within_county_crop_processing_nitrogen'']"
  let ?c1 = "[''import_animal_nitrogen'', ''export_animal_nitrogen'', ''within_county_animal_nitrogen'']"
  let ?c2 = "[''import_meat_nitrogen'', ''export_meat_nitrogen'', ''within_county_meat_nitrogen'']"
  have p0: "\<forall>col\<in>set ?c0. \<not> prefix ''log_'' col \<and> (\<exists>xs. get_num crop col = Inr xs)"
    using assms(11) by (simp add: stages_def)
  have p1: "\<forall>col\<in>set ?c1. \<not> prefix ''log_'' col \<and> (\<exists>xs. get_num animal col = Inr xs)"
    using assms(12) by (simp add: stages_def)
  have p2: "\<forall>col\<in>set ?c2. \<not> prefix ''log_'' col \<and> (\<exists>xs. get_num animal col = Inr xs)"
    using assms(12) by (simp add: stages_def)
  from stage_section_ok [OF assms(1,3,4,7,8) p0, of "''Crop Stage''"] obtain tabs0 crop' tbl0 where
    s0: "trade_maps ''Crop Stage'' ?c0 crop = Inr (tabs0, crop')" "trade_table crop' ?c0 = Inr tbl0"
    by blast
  from stage_section_ok [OF assms(2,5,6,9,10) p1, of "''Live Animal Stage''"] obtain tabs1 animal1 tbl1 where
    s1: "trade_maps ''Live Animal Stage'' ?c1 animal = Inr (tabs1, animal1)"
        "trade_table animal1 ?c1 = Inr tbl1"
    and k1: "agree animal animal1" "distinct (map fst animal1)"
    by blast
  have l1: "lookup_col animal1 ''FIPS'' = Inr af" "lookup_col animal1 ''county'' = Inr ac"
    "lookup_col animal1 ''commodity'' = Inr (ObjCol ka)"
    using agree_lookup [OF k1(1), of "''FIPS''"] agree_lookup [OF k1(1), of "''county''"]
      agree_lookup [OF k1(1), of "''commodity''"] assms(5,6,9) by simp_all
  have p2': "\<forall>col\<in>set ?c2. \<not> prefix ''log_'' col \<and> (\<exists>xs. get_num animal1 col = Inr xs)"
    using p2 agree_get_num [OF k1(1)] by auto
  from stage_section_ok [OF k1(2) l1(1,2,3) assms(10) p2', of "''Animal Product Stage''"]
  obtain tabs2 animal2 tbl2 where
    s2: "trade_maps ''Animal Product Stage'' ?c2 animal1 = Inr (tabs2, animal2)"
        "trade_table animal2 ?c2 = Inr tbl2"
    by blast
  from s0 s1 s2 show ?thesis by (simp add: stages_def)
qed

lemma update_dashboard_ok:
  assumes "load_data fs base_dir year = Inr (n, area, inventory, crop, animal, tot)"
    and "distinct (map fst crop)" and "distinct (map fst animal)"
    and "lookup_col crop ''commodity'' = Inr (ObjCol kc)" and "CStr sc \<in> set kc"
    and "lookup_col animal ''commodity'' = Inr (ObjCol ka)" and "CStr sa \<in> set ka"
    and "\<forall>col\<in>set (snd (stages ! 0)). \<exists>xs. get_num crop col = Inr xs"
    and "\<forall>col\<in>set (snd (stages ! 1) @ snd (stages ! 2)). \<exists>xs. get_num animal col = Inr xs"
    and "production_totals inventory area = Inr p"
  shows "\<exists>m t tr. update_dashboard fs base_dir year = Inr (m, t, tr, [], p)"
proof -
  from load_data_columns [OF assms(1)] obtain cf cc af ac xss yss F T C where
    l: "lookup_col crop ''FIPS'' = Inr cf" "lookup_col crop ''county'' = Inr cc"
       "lookup_col animal ''FIPS'' = Inr af" "lookup_col animal ''county'' = Inr ac"
    and g: "get_nums crop crop_loss_cols = Inr xss" "get_nums animal animal_loss_cols = Inr yss"
    and tot: "tot = [(''FIPS'', F), (''total_nitrogen_loss'', NumCol T), (''county'', C)]"
    by blast
  from loss_maps_labels_ok [OF assms(2,3) l g] obtain tabs crop1 animal1 where
    lm: "loss_maps 0 nitrogen_loss_labels crop animal = Inr (tabs, crop1, animal1)" by blast
  from loss_maps_Inr [OF lm] assms(2,3) have
    k: "agree crop crop1" "agree animal animal1" "distinct (map fst crop1)" "distinct (map fst animal1)"
    by simp_all
  from total_loss_map_ok [of F T C] tot obtain tb where tb: "total_loss_map tot = Inr tb" by blast
  from nitrogen_loss_table_ok [OF g] obtain tbl where "nitrogen_loss_table crop animal = Inr tbl" ..
  with nitrogen_loss_table_agree [OF k(1,2)] have nt: "nitrogen_loss_table crop1 animal1 = Inr tbl"
    by simp
  have l1: "lookup_col crop1 ''FIPS'' = Inr cf" "lookup_col crop1 ''county'' = Inr cc"
    "lookup_col animal1 ''FIPS'' = Inr af" "lookup_col animal1 ''county'' = Inr ac"
    "lookup_col crop1 ''commodity'' = Inr (ObjCol kc)" "lookup_col animal1 ''commodity'' = Inr (ObjCol ka)"
    using agree_lookup [OF k(1), of "''FIPS''"] agree_lookup [OF k(1), of "''county''"]
      agree_lookup [OF k(2), of "''FIPS''"] agree_lookup [OF k(2), of "''county''"]
      agree_lookup [OF k(1), of "''commodity''"] agree_lookup [OF k(2), of "''commodity''"]
      l assms(4,6) by simp_all
  have c1: "\<forall>col\<in>set (snd (stages ! 0)). \<exists>xs. get_num crop1 col = Inr xs"
    using assms(8) agree_get_num [OF k(1)] by (simp add: stages_def)
  have a1: "\<forall>col\<in>set (snd (stages ! 1) @ snd (stages ! 2)). \<exists>xs. get_num animal1 col = Inr xs"
    using assms(9) agree_get_num [OF k(2)] by (simp add: stages_def)
  from import_export_sections_ok [OF k(3,4) l1(1-4) l1(5) assms(5) l1(6) assms(7) c1 a1]
  obtain secs crop2 animal2 where
    ie: "import_export_sections 0 stages crop1 animal1 = Inr (secs, crop2, animal2)" by blast
  from assms(1) lm tb nt ie assms(10) show ?thesis
    by (simp add: update_dashboard_def)
qed


section \<open>The example scenario, evaluated\<close>

lemma ex_paths: "data_paths ''/srv/app'' ''2017'' = Inr ''/srv/app/data/2017''"
  by (simp add: data_paths_def years_def path_join_def)

lemma ex_crop: "add_total (rename_columns crop_csv) crop_loss_cols = Inr crop_loaded"
  by (simp add: crop_csv_def crop_loaded_def add_total_def rename_columns_def str_defs crop_loss_cols_def
      get_num_def lookup_col_def set_col_def sum_axis1_def nansum_def)

lemma ex_animal: "add_total (rename_columns animal_csv) animal_loss_cols = Inr animal_loaded"
  by (simp add: animal_csv_def animal_loaded_def add_total_def rename_columns_def str_defs animal_loss_cols_def
      get_num_def lookup_col_def set_col_def sum_axis1_def nansum_def)

lemma ex_total: "total_nitrogen crop_loaded animal_loaded = Inr total_loaded"
  by (simp add: crop_loaded_def animal_loaded_def total_loaded_def total_nitrogen_def
      get_num_def lookup_col_def
      group_keys_def groupby_sum_def groupby_first_def group_rows_def first_notnull_def nansum_def Let_def)

lemma ex_load:
  "load_data example_store ''/srv/app'' ''2017''
     = Inr (nitrogen_csv, area_csv, inventory_csv, crop_loaded, animal_loaded, total_loaded)"
  by (simp add: load_data_def ex_paths read_csv_def example_store_def path_join_def ex_crop ex_animal ex_total)

lemma ex_production:
  "\<exists>p. production_totals inventory_csv area_csv = Inr p"
  by (simp add: production_totals_def format_commodity_def inventory_csv_def area_csv_def
      lookup_col_def set_col_def px_pie_def px_col_def)

lemma ex_run: "\<exists>m t tr p. update_dashboard example_store ''/srv/app'' ''2017'' = Inr (m, t, tr, [], p)"
proof -
  from ex_production obtain p where p: "production_totals inventory_csv area_csv = Inr p" ..
  have "\<exists>m t tr. update_dashboard example_store ''/srv/app'' ''2017'' = Inr (m, t, tr, [], p)"
  proof (rule update_dashboard_ok [OF ex_load _ _ _ _ _ _ _ _ p])
    show "distinct (map fst crop_loaded)" by (simp add: crop_loaded_def)
    show "distinct (map fst animal_loaded)" by (simp add: animal_loaded_def)
    show "lookup_col crop_loaded ''commodity'' = Inr (ObjCol [CStr ''corn'', CStr ''corn''])"
      by (simp add: crop_loaded_def lookup_col_def)
    show "CStr ''corn'' \<in> set [CStr ''corn'', CStr ''corn'']" by simp
    show "lookup_col animal_loaded ''commodity'' = Inr (ObjCol [CStr ''dairy_cattle'', CStr ''dairy_cattle''])"
      by (simp add: animal_loaded_def lookup_col_def)
    show "CStr ''dairy_cattle'' \<in> set [CStr ''dairy_cattle'', CStr ''dairy_cattle'']" by simp
    show "\<forall>col\<in>set (snd (stages ! 0)). \<exists>xs. get_num crop_loaded col = Inr xs"
      by (simp add: stages_def crop_loaded_def get_num_def lookup_col_def)
    show "\<forall>col\<in>set (snd (stages ! 1) @ snd (stages ! 2)). \<exists>xs. get_num animal_loaded col = Inr xs"
      by (simp add: stages_def animal_loaded_def get_num_def lookup_col_def)
  qed
  then show ?thesis by blast
qed


section \<open>County totals\<close>



section \<open>Stage totals\<close>



section \<open>The trade-flow tables\<close>



section \<open>Selecting a scenario again\<close>



section \<open>Failure to load\<close>

text \<open>
  Claim C5. When reading any of the five source tables of the requested scenario fails,
  loading fails with the error of a table that could not be read, and the callback returns
  that same error instead of outputs: nothing is built.
\<close>

theorem load_failure_surfaced:
  assumes "data_paths base_dir year = Inr path"
    and "f \<in> set [''nitrogen_losses_summary.csv'', ''harvested_area_by_commodity.csv'',
                    ''inventory_by_commodity.csv'', ''crop_processing_nitrogen.csv'',
                    ''animal_stage_nitrogen.csv'']"
    and "read_csv fs (path_join path f) = Inl e"
  shows "\<exists>e'. load_data fs base_dir year = Inl e'
          \<and> update_dashboard fs base_dir year = Inl e'
          \<and> update_dashboard_wrapper fs base_dir year = Inl e'
          \<and> (\<exists>f'\<in>set [''nitrogen_losses_summary.csv'', ''harvested_area_by_commodity.csv'',
                    ''inventory_by_commodity.csv'', ''crop_processing_nitrogen.csv'',
                    ''animal_stage_nitrogen.csv'']. read_csv fs (path_join path f') = Inl e')"
proof -
  from load_data_read_failure [OF assms] obtain e' where
    l: "load_data fs base_dir year = Inl e'"
    and f: "\<exists>f'\<in>set [''nitrogen_losses_summary.csv'', ''harvested_area_by_commodity.csv'',
                    ''inventory_by_commodity.csv'', ''crop_processing_nitrogen.csv'',
                    ''animal_stage_nitrogen.csv'']. read_csv fs (path_join path f') = Inl e'"
    by blast
  from l have "update_dashboard fs base_dir year = Inl e'"
    by (rule update_dashboard_load_Inl)
  with l f show ?thesis by (auto simp: update_dashboard_wrapper_def)
qed

theorem load_failure_surfaced_witness:
  "data_paths ''/srv/app'' ''2017'' = Inr ''/srv/app/data/2017''
   \<and> read_csv missing_animal_store (path_join ''/srv/app/data/2017'' ''animal_stage_nitrogen.csv'')
       = Inl (ReadError ''No such file or directory'')
   \<and> load_data missing_animal_store ''/srv/app'' ''2017'' = Inl (ReadError ''No such file or directory'')
   \<and> update_dashboard missing_animal_store ''/srv/app'' ''2017''
       = Inl (ReadError ''No such file or directory'')
   \<and> update_dashboard_wrapper missing_animal_store ''/srv/app'' ''2017''
       = Inl (ReadError ''No such file or directory'')"
proof -
  have r: "read_csv missing_animal_store (path_join ''/srv/app/data/2017'' ''animal_stage_nitrogen.csv'')
       = Inl (ReadError ''No such file or directory'')"
    by (simp add: read_csv_def missing_animal_store_def path_join_def)
  from load_failure_surfaced [OF ex_paths _ r]
  obtain e' where e: "load_data missing_animal_store ''/srv/app'' ''2017'' = Inl e'"
      "update_dashboard missing_animal_store ''/srv/app'' ''2017'' = Inl e'"
      "update_dashboard_wrapper missing_animal_store ''/srv/app'' ''2017'' = Inl e'"
    and "\<exists>f'\<in>set [''nitrogen_losses_summary.csv'', ''harvested_area_by_commodity.csv'',
                    ''inventory_by_commodity.csv'', ''crop_processing_nitrogen.csv'',
                    ''animal_stage_nitrogen.csv'']. read_csv missing_animal_store (path_join ''/srv/app/data/2017'' f') = Inl e'"
    by auto
  then have "e' = ReadError ''No such file or directory''"
    by (auto simp: read_csv_def missing_animal_store_def example_store_def path_join_def)
  with e r ex_paths show ?thesis by simp
qed

section \<open>Renaming the legacy columns\<close>

text \<open>
  Claim C6, as the code has it. Loading renames the columns of the crop and animal tables
  and of no other table. A label that starts with \<open>selfloop\<close> gets every occurrence of
  \<open>selfloop\<close> replaced by \<open>within_county\<close>, the prefix included; when the rest of the
  label holds no further occurrence that is the replacement of the prefix alone. Every
  other label is kept, and the columns keep their cells.
\<close>

theorem load_data_renames_columns:
  assumes "load_data fs base_dir year = Inr (nitrogen_df, area_df, inventory_df, crop_df, animal_df, total_df)"
  shows "\<exists>path crop0 animal0 ctot atot.
     data_paths base_dir year = Inr path
     \<and> read_csv fs (path_join path ''crop_processing_nitrogen.csv'') = Inr crop0
     \<and> read_csv fs (path_join path ''animal_stage_nitrogen.csv'') = Inr animal0
     \<and> crop_df = set_col (rename_columns crop0) ''total_nitrogen_loss'' (NumCol ctot)
     \<and> animal_df = set_col (rename_columns animal0) ''total_nitrogen_loss'' (NumCol atot)
     \<and> map snd (rename_columns crop0) = map snd crop0
     \<and> map snd (rename_columns animal0) = map snd animal0
     \<and> map fst (rename_columns crop0) = map rename_col (map fst crop0)
     \<and> map fst (rename_columns animal0) = map rename_col (map fst animal0)
     \<and> (\<forall>c. \<not> prefix ''selfloop'' c \<longrightarrow> rename_col c = c)
     \<and> (\<forall>rest. rename_col (''selfloop'' @ rest)
            = ''within_county'' @ str_replace ''selfloop'' ''within_county'' rest)
     \<and> (\<forall>rest. \<not> sublist ''selfloop'' rest
            \<longrightarrow> rename_col (''selfloop'' @ rest) = ''within_county'' @ rest)"
proof -
  from assms obtain path crop0 animal0 where
    p: "data_paths base_dir year = Inr path"
       "read_csv fs (path_join path ''crop_processing_nitrogen.csv'') = Inr crop0"
       "read_csv fs (path_join path ''animal_stage_nitrogen.csv'') = Inr animal0"
    and crop: "add_total (rename_columns crop0) crop_loss_cols = Inr crop_df"
    and animal: "add_total (rename_columns animal0) animal_loss_cols = Inr animal_df"
    by (auto simp: load_data_Inr read_csv_def)
  from crop obtain ctot where c: "crop_df = set_col (rename_columns crop0) ''total_nitrogen_loss'' (NumCol ctot)"
    by (auto simp: add_total_Inr)
  from animal obtain atot where a: "animal_df = set_col (rename_columns animal0) ''total_nitrogen_loss'' (NumCol atot)"
    by (auto simp: add_total_Inr)
  have r: "\<forall>rest. \<not> sublist ''selfloop'' rest
            \<longrightarrow> rename_col (''selfloop'' @ rest) = ''within_county'' @ rest"
  proof (intro allI impI)
    fix rest :: string
    assume "\<not> sublist ''selfloop'' rest"
    with str_replace_absent [of "''selfloop''" rest "''within_county''"]
    have "str_replace ''selfloop'' ''within_county'' rest = rest" by simp
    with rename_col_selfloop [of rest]
    show "rename_col (''selfloop'' @ rest) = ''within_county'' @ rest" by (simp only:)
  qed
  have o: "\<forall>c. \<not> prefix ''selfloop'' c \<longrightarrow> rename_col c = c"
    using rename_col_other by blast
  have e: "\<forall>rest. rename_col (''selfloop'' @ rest)
            = ''within_county'' @ str_replace ''selfloop'' ''within_county'' rest"
    using rename_col_selfloop by blast
  note v = rename_columns_values [of crop0] rename_columns_values [of animal0]
    rename_columns_names [of crop0] rename_columns_names [of animal0]
  show ?thesis
    by (intro exI conjI) (rule p c a v o e r)+
qed

theorem load_data_renames_columns_witness:
  "load_data example_store ''/srv/app'' ''2017''
     = Inr (nitrogen_csv, area_csv, inventory_csv, crop_loaded, animal_loaded, total_loaded)
   \<and> \<not> sublist ''selfloop'' ''_meat_nitrogen''
   \<and> rename_col (''selfloop'' @ ''_meat_nitrogen'') = ''within_county'' @ ''_meat_nitrogen''
   \<and> \<not> prefix ''selfloop'' ''import_meat_nitrogen''
   \<and> rename_col ''import_meat_nitrogen'' = ''import_meat_nitrogen''
   \<and> map snd (rename_columns animal_csv) = map snd animal_csv"
proof -
  from load_data_renames_columns [OF ex_load]
  obtain animal0 where
    r: "\<forall>c. \<not> prefix ''selfloop'' c \<longrightarrow> rename_col c = c"
       "\<forall>rest. \<not> sublist ''selfloop'' rest
            \<longrightarrow> rename_col (''selfloop'' @ rest) = ''within_county'' @ rest"
    by blast
  have s: "\<not> sublist ''selfloop'' ''_meat_nitrogen''"
    by (simp add: sublist_Cons_right)
  have p: "\<not> prefix ''selfloop'' ''import_meat_nitrogen''" by simp
  show ?thesis
    by (intro conjI) (rule ex_load s p r(1) [rule_format, OF p] r(2) [rule_format, OF s]
      rename_columns_values)+
qed

text \<open>
  The claim as stated, with only the prefix replaced, fails on a label in which
  \<open>selfloop\<close> occurs twice.
\<close>

theorem rename_replaces_every_occurrence:
  "prefix ''selfloop'' ''selfloop_selfloop''
   \<and> map fst (rename_columns [(''selfloop_selfloop'', NumCol [Fin 1])]) = [''within_county_within_county'']
   \<and> rename_col ''selfloop_selfloop'' \<noteq> ''within_county'' @ drop (length ''selfloop'') ''selfloop_selfloop''"
  by (simp add: rename_columns_def str_defs)

section \<open>The log transform\<close>



section \<open>Values shown in millions\<close>




section \<open>Where the trade maps go\<close>

text \<open>
  Claim C9. Whenever the callback returns, its fourth output, the children of
  \<open>import-export-maps\<close>, is the empty list. The nine trade maps are in the third output,
  \<open>import-export-tables\<close>: three stage sections, each with its three map tabs and its table.
\<close>

theorem import_export_maps_empty:
  assumes "update_dashboard_wrapper fs base_dir year = Inr (maps, loss_table, trade, trade_maps_slot, production)"
  shows "trade_maps_slot = []
       \<and> length (trade_stages trade) = 3
       \<and> map stage_heading (trade_stages trade) = [''Crop Stage'', ''Live Animal Stage'', ''Animal Product Stage'']
       \<and> (\<forall>s\<in>set (trade_stages trade). length (stage_tabs s) = 3)
       \<and> length (concat (map stage_tabs (trade_stages trade))) = 9"
proof -
  from assms obtain crop1 animal1 secs crop2 animal2 where
    ie: "import_export_sections 0 stages crop1 animal1 = Inr (secs, crop2, animal2)"
    and tr: "trade_stages trade = secs" and e: "trade_maps_slot = []"
    unfolding update_dashboard_wrapper_def update_dashboard_Inr by auto
  from import_export_sections_Inr [OF ie stages_not_log] have
    len: "length secs = 3"
    and rows: "\<forall>j<3. stage_heading (secs ! j) = fst (stages ! j)
             \<and> map tab_label (stage_tabs (secs ! j)) = map tab_name (snd (stages ! j))"
    by (simp_all add: stages_length)
  from len obtain s0 s1 s2 where secs: "secs = [s0, s1, s2]"
    by (auto simp: length_Suc_conv numeral_3_eq_3)
  have h: "map stage_heading secs = [''Crop Stage'', ''Live Animal Stage'', ''Animal Product Stage'']"
    using rows [rule_format, of 0] rows [rule_format, of 1] rows [rule_format, of 2]
    by (simp add: secs stages_def)
  have t: "length (stage_tabs (secs ! j)) = 3" if "j < 3" for j
  proof -
    from rows that have "length (map tab_label (stage_tabs (secs ! j))) = length (map tab_name (snd (stages ! j)))"
      by simp
    with stages_columns [OF that] show ?thesis by simp
  qed
  from t [of 0] t [of 1] t [of 2] have t3: "length (stage_tabs s0) = 3" "length (stage_tabs s1) = 3"
    "length (stage_tabs s2) = 3"
    by (simp_all add: secs)
  from e len h t3 show ?thesis by (simp add: tr secs)
qed

theorem import_export_maps_empty_witness:
  "\<exists>maps loss_table trade production.
     update_dashboard_wrapper example_store ''/srv/app'' ''2017'' = Inr (maps, loss_table, trade, [], production)
     \<and> length (trade_stages trade) = 3
     \<and> length (concat (map stage_tabs (trade_stages trade))) = 9"
proof -
  from ex_run obtain m t tr p where
    r: "update_dashboard_wrapper example_store ''/srv/app'' ''2017'' = Inr (m, t, tr, [], p)"
    unfolding update_dashboard_wrapper_def by blast
  from import_export_maps_empty [OF r] r show ?thesis by blast
qed

section \<open>The unused summary table\<close>

text \<open>
  Claim C10. The outputs do not depend on what \<open>nitrogen_losses_summary.csv\<close> holds:
  with any two readable contents, everything else being equal, the callback returns the
  same result. The file must still be readable: if reading it fails, the callback fails
  with that error.
\<close>

theorem nitrogen_summary_unused:
  "update_dashboard
     (fs(path_join (path_join (path_join base_dir ''data'') year) ''nitrogen_losses_summary.csv'' := Inr d1))
     base_dir year
   = update_dashboard
     (fs(path_join (path_join (path_join base_dir ''data'') year) ''nitrogen_losses_summary.csv'' := Inr d2))
     base_dir year
   \<and> (year \<in> set years \<longrightarrow>
       update_dashboard
         (fs(path_join (path_join (path_join base_dir ''data'') year) ''nitrogen_losses_summary.csv'' := Inl e))
         base_dir year = Inl e)"
proof
  show "update_dashboard
     (fs(path_join (path_join (path_join base_dir ''data'') year) ''nitrogen_losses_summary.csv'' := Inr d1))
     base_dir year
   = update_dashboard
     (fs(path_join (path_join (path_join base_dir ''data'') year) ''nitrogen_losses_summary.csv'' := Inr d2))
     base_dir year"
    unfolding update_dashboard_def load_data_nitrogen_readable
    by (simp add: bind_err_assoc)
  show "year \<in> set years \<longrightarrow>
       update_dashboard
         (fs(path_join (path_join (path_join base_dir ''data'') year) ''nitrogen_losses_summary.csv'' := Inl e))
         base_dir year = Inl e"
    by (simp add: update_dashboard_def load_data_nitrogen_unreadable)
qed

theorem nitrogen_summary_unused_witness:
  "''2017'' \<in> set years
   \<and> update_dashboard
       (example_store(path_join (path_join (path_join ''/srv/app'' ''data'') ''2017'') ''nitrogen_losses_summary.csv''
          := Inl (ReadError ''unreadable'')))
       ''/srv/app'' ''2017'' = Inl (ReadError ''unreadable'')
   \<and> update_dashboard
       (example_store(path_join (path_join (path_join ''/srv/app'' ''data'') ''2017'') ''nitrogen_losses_summary.csv''
          := Inr []))
       ''/srv/app'' ''2017''
     = update_dashboard
       (example_store(path_join (path_join (path_join ''/srv/app'' ''data'') ''2017'') ''nitrogen_losses_summary.csv''
          := Inr nitrogen_csv))
       ''/srv/app'' ''2017''"
proof -
  have y: "''2017'' \<in> set years" by (simp add: years_def)
  from nitrogen_summary_unused [of example_store "''/srv/app''" "''2017''" "[]" nitrogen_csv "ReadError ''unreadable''"] y
  show ?thesis by blast
qed

end
